theory Spec2Isabelle
  imports Main "HOL-Library.Log_Nat"
begin

chapter \<open>A postal code to its weather: gateway and resolver\<close>

text \<open>
  Two HTTP services. The gateway (service-a) takes a postal code in a JSON body, checks
  that it is eight digits and asks the resolver. The resolver (service-b) looks the
  code up at a postal-lookup API, asks a weather API for the temperature of the
  locality, converts it and answers with a report of four fields. Each handler is a
  function from the request, the state of its response writer and the answers of
  the network to the final state; the standard library is modelled as far as the
  handlers use it.
\<close>

section \<open>The float64 arithmetic of the temperature conversion\<close>

text \<open>
  Go's \<^verbatim>\<open>float64\<close> is IEEE 754 binary64. A finite value is kept as the rational
  number it denotes; the two infinities and NaN are values of their own. The sign of
  zero is not kept: Go's \<^verbatim>\<open>==\<close> does not see it, and no function below divides by a
  variable. Every arithmetic operation computes the exact rational result and rounds
  it to the nearest binary64 value, ties to even (53 bits of precision, least
  exponent \<open>-1074\<close>, overflow to infinity from \<open>2 ^ 1024\<close> on).
\<close>

datatype float64 = Finite rat | PosInf | NegInf | NaN

definition pow2 :: "int \<Rightarrow> rat" where
  "pow2 e = (if 0 \<le> e then 2 ^ nat e else 1 / 2 ^ nat (- e))"

text \<open>\<open>ilog2 x\<close> is the exponent \<open>k\<close> with \<open>2^k \<le> |x| < 2^(k+1)\<close>, for \<open>x \<noteq> 0\<close>.\<close>

definition ilog2 :: "rat \<Rightarrow> int" where
  "ilog2 x = (case quotient_of \<bar>x\<bar> of (p, q) \<Rightarrow>
     (let k = bitlen p - bitlen q in if pow2 k \<le> \<bar>x\<bar> then k else k - 1))"

definition round_half_even :: "rat \<Rightarrow> int" where
  "round_half_even x = (let f = \<lfloor>x\<rfloor>; d = x - of_int f in
     if d < 1 / 2 then f else if 1 / 2 < d then f + 1 else if even f then f else f + 1)"

definition round_f64 :: "rat \<Rightarrow> float64" where
  "round_f64 x = (if x = 0 then Finite 0 else
     (let e = max (ilog2 x - 52) (- 1074);
          m = round_half_even (\<bar>x\<bar> / pow2 e);
          y = of_int m * pow2 e
      in if pow2 1024 \<le> y then (if 0 < x then PosInf else NegInf)
         else Finite (if 0 < x then y else - y)))"

fun is_negative :: "float64 \<Rightarrow> bool" where
  "is_negative (Finite r) = (r < 0)"
| "is_negative NegInf = True"
| "is_negative _ = False"

fun f64_add :: "float64 \<Rightarrow> float64 \<Rightarrow> float64" where
  "f64_add NaN _ = NaN"
| "f64_add _ NaN = NaN"
| "f64_add (Finite a) (Finite b) = round_f64 (a + b)"
| "f64_add PosInf NegInf = NaN"
| "f64_add NegInf PosInf = NaN"
| "f64_add PosInf _ = PosInf"
| "f64_add NegInf _ = NegInf"
| "f64_add (Finite a) y = y"

fun f64_mul :: "float64 \<Rightarrow> float64 \<Rightarrow> float64" where
  "f64_mul NaN _ = NaN"
| "f64_mul _ NaN = NaN"
| "f64_mul (Finite a) (Finite b) = round_f64 (a * b)"
| "f64_mul x y =
     (if x = Finite 0 \<or> y = Finite 0 then NaN
      else if is_negative x = is_negative y then PosInf else NegInf)"

fun f64_div :: "float64 \<Rightarrow> float64 \<Rightarrow> float64" where
  "f64_div NaN _ = NaN"
| "f64_div _ NaN = NaN"
| "f64_div (Finite a) (Finite b) =
     (if b = 0 then (if a = 0 then NaN else if 0 < a then PosInf else NegInf)
      else round_f64 (a / b))"
| "f64_div (Finite a) _ = Finite 0"
| "f64_div x (Finite b) = (if is_negative x = (b < 0) then PosInf else NegInf)"
| "f64_div _ _ = NaN"

text \<open>A floating-point constant of the source is the binary64 value nearest to it.\<close>

definition f64_const :: "rat \<Rightarrow> float64" where
  "f64_const x = round_f64 x"

section \<open>JSON values and the struct decoding of encoding/json\<close>

text \<open>
  The scanner and the number conversions of the standard library are not part of the
  repository. A JSON document is taken as the value the scanner builds from it, and a
  number token as what \<^verbatim>\<open>strconv\<close> reads from it: \<open>asFloat64\<close> is the result of
  \<^verbatim>\<open>ParseFloat(s, 64)\<close> (\<open>None\<close> on a range error, never an infinity) and \<open>asInt\<close>
  the result of \<^verbatim>\<open>ParseInt(s, 10, 64)\<close> (\<open>None\<close> when the token has a fraction or an
  exponent, or does not fit). Objects keep their members in document order,
  duplicates included.
\<close>

datatype number = Number (asFloat64: "rat option") (asInt: "int option")

datatype json =
    JNull
  | JBool bool
  | JNumber number
  | JString string
  | JArray "json list"
  | JObject "(string \<times> json) list"

text \<open>
  Errors are values. \<open>Failure m\<close> is an error handed back by the standard library
  (net/http, net/url, io, the JSON scanner) whose message is \<open>m\<close>;
  \<open>UnmarshalTypeError v f\<close> is encoding/json's error for a JSON value of kind \<open>v\<close> that
  does not fit the Go type of field \<open>f\<close>; \<open>UnsupportedValueError\<close> is its error for a
  float64 that JSON cannot represent.
\<close>

datatype go_error =
    Failure string
  | UnmarshalTypeError string string
  | UnsupportedValueError

fun kind :: "json \<Rightarrow> string" where
  "kind JNull = ''null''"
| "kind (JBool _) = ''bool''"
| "kind (JNumber _) = ''number''"
| "kind (JString _) = ''string''"
| "kind (JArray _) = ''array''"
| "kind (JObject _) = ''object''"

text \<open>
  A key that equals no field name is looked up by its folded form: ASCII letters in
  upper case, and the two runes whose simple case folding is an ASCII letter, the
  Kelvin sign U+212A (bytes E2 84 AA) and the long s U+017F (bytes C5 BF), replaced by
  \<open>K\<close> and \<open>S\<close>. Any other rune outside ASCII folds to a rune outside ASCII, so it
  never meets a field name of these structs; its bytes are left as they are.
\<close>

definition upper :: "char \<Rightarrow> char" where
  "upper c =
     (case map_of (zip ''abcdefghijklmnopqrstuvwxyz'' ''ABCDEFGHIJKLMNOPQRSTUVWXYZ'') c of
        Some u \<Rightarrow> u
      | None \<Rightarrow> c)"

fun foldName :: "string \<Rightarrow> string" where
  "foldName [] = []"
| "foldName (a # b # c # s) =
     (if a = CHR 0xE2 \<and> b = CHR 0x84 \<and> c = CHR 0xAA then CHR ''K'' # foldName s
      else if a = CHR 0xC5 \<and> b = CHR 0xBF then CHR ''S'' # foldName (c # s)
      else upper a # foldName (b # c # s))"
| "foldName [a, b] =
     (if a = CHR 0xC5 \<and> b = CHR 0xBF then [CHR ''S''] else upper a # foldName [b])"
| "foldName [a] = [upper a]"

text \<open>
  A struct type is described by its fields in declaration order: the JSON name of the
  tag and the function that stores a JSON value into the field. The exact name is
  tried first, then the folded one.
\<close>

type_synonym 's field = "string \<times> (json \<Rightarrow> 's \<Rightarrow> go_error + 's)"

definition find_field :: "string \<Rightarrow> 's field list \<Rightarrow> (json \<Rightarrow> 's \<Rightarrow> go_error + 's) option" where
  "find_field key fs =
     (case map_of fs key of
        Some f \<Rightarrow> Some f
      | None \<Rightarrow> map_of (map (\<lambda>(n, f). (foldName n, f)) fs) (foldName key))"

text \<open>
  The members of an object are stored one after the other. A member that fits no field
  is skipped. A value of the wrong type leaves its field alone; the first such error
  is kept while decoding goes on, and is returned at the end.
\<close>

fun object :: "'s field list \<Rightarrow> (string \<times> json) list \<Rightarrow> 's \<Rightarrow> go_error option \<Rightarrow> 's \<times> go_error option" where
  "object fs [] s e = (s, e)"
| "object fs ((k, v) # kvs) s e =
     (case find_field k fs of
        None \<Rightarrow> object fs kvs s e
      | Some store \<Rightarrow>
          (case store v s of
             Inl err \<Rightarrow> object fs kvs s (case e of None \<Rightarrow> Some err | Some first \<Rightarrow> Some first)
           | Inr s' \<Rightarrow> object fs kvs s' e))"

text \<open>
  Decoding a JSON value into a struct: \<^verbatim>\<open>null\<close> changes nothing, an object is stored
  member by member, anything else is a type error. \<open>tname\<close> is the Go type's name.
\<close>

definition unmarshal :: "string \<Rightarrow> 's field list \<Rightarrow> json \<Rightarrow> 's \<Rightarrow> go_error + 's" where
  "unmarshal tname fs v s =
     (case v of
        JNull \<Rightarrow> Inr s
      | JObject kvs \<Rightarrow>
          (case object fs kvs s None of
             (s', None) \<Rightarrow> Inr s'
           | (s', Some err) \<Rightarrow> Inl err)
      | _ \<Rightarrow> Inl (UnmarshalTypeError (kind v) tname))"

definition string_field :: "string \<Rightarrow> (string \<Rightarrow> 's \<Rightarrow> 's) \<Rightarrow> 's field" where
  "string_field name upd = (name, \<lambda>v s.
     (case v of
        JString x \<Rightarrow> Inr (upd x s)
      | JNull \<Rightarrow> Inr s
      | _ \<Rightarrow> Inl (UnmarshalTypeError (kind v) name)))"

definition bool_field :: "string \<Rightarrow> (bool \<Rightarrow> 's \<Rightarrow> 's) \<Rightarrow> 's field" where
  "bool_field name upd = (name, \<lambda>v s.
     (case v of
        JBool x \<Rightarrow> Inr (upd x s)
      | JNull \<Rightarrow> Inr s
      | _ \<Rightarrow> Inl (UnmarshalTypeError (kind v) name)))"

definition float64_field :: "string \<Rightarrow> (float64 \<Rightarrow> 's \<Rightarrow> 's) \<Rightarrow> 's field" where
  "float64_field name upd = (name, \<lambda>v s.
     (case v of
        JNumber n \<Rightarrow>
          (case asFloat64 n of
             Some x \<Rightarrow> Inr (upd (Finite x) s)
           | None \<Rightarrow> Inl (UnmarshalTypeError (kind v) name))
      | JNull \<Rightarrow> Inr s
      | _ \<Rightarrow> Inl (UnmarshalTypeError (kind v) name)))"

definition int_field :: "string \<Rightarrow> (int \<Rightarrow> 's \<Rightarrow> 's) \<Rightarrow> 's field" where
  "int_field name upd = (name, \<lambda>v s.
     (case v of
        JNumber n \<Rightarrow>
          (case asInt n of
             Some x \<Rightarrow> Inr (upd x s)
           | None \<Rightarrow> Inl (UnmarshalTypeError (kind v) name))
      | JNull \<Rightarrow> Inr s
      | _ \<Rightarrow> Inl (UnmarshalTypeError (kind v) name)))"

definition struct_field :: "string \<Rightarrow> 't field list \<Rightarrow> ('s \<Rightarrow> 't) \<Rightarrow> ('t \<Rightarrow> 's \<Rightarrow> 's) \<Rightarrow> 's field" where
  "struct_field name fs get upd = (name, \<lambda>v s.
     (case unmarshal name fs v (get s) of
        Inl err \<Rightarrow> Inl err
      | Inr t \<Rightarrow> Inr (upd t s)))"

text \<open>
  Encoding a float64: the digits \<^verbatim>\<open>strconv\<close> writes are the shortest that
  \<^verbatim>\<open>ParseFloat\<close> reads back as the same value; a whole number in the range of int64 is
  written without fraction or exponent. Infinities and NaN cannot be encoded.
\<close>

definition FormatFloat :: "rat \<Rightarrow> number" where
  "FormatFloat x = Number (Some x)
     (if of_int \<lfloor>x\<rfloor> = x \<and> - (2 ^ 63) \<le> x \<and> x < 2 ^ 63 then Some \<lfloor>x\<rfloor> else None)"

fun float64_json :: "float64 \<Rightarrow> go_error + json" where
  "float64_json (Finite x) = Inr (JNumber (FormatFloat x))"
| "float64_json _ = Inl UnsupportedValueError"

section \<open>net/http as the two services use it\<close>

text \<open>
  A context records how it was made: \<open>Background\<close> is \<^verbatim>\<open>context.Background()\<close>, which is
  never done; \<open>Inbound\<close> is the context of the request being served
  (\<^verbatim>\<open>r.Context()\<close>), which the server cancels; \<open>WithRemoteSpan\<close> is the result of the
  propagator's \<^verbatim>\<open>Extract\<close> when the headers carry a trace, and \<open>WithSpan\<close> the context
  returned by \<^verbatim>\<open>tracer.Start\<close>: both only add a value to their parent;
  \<open>WithTimeout\<close> is the one returned by \<^verbatim>\<open>context.WithTimeout\<close> for a number of seconds.
  Spans only record what happened; nothing that is written to a response depends on
  them, and they are left out.
\<close>

datatype "context" =
    Background
  | Inbound
  | WithRemoteSpan string "context"
  | WithSpan string "context"
  | WithTimeout nat "context"

text \<open>The seconds after which a context expires on its own (\<^verbatim>\<open>Deadline\<close>), if it does.\<close>

fun timeout :: "context \<Rightarrow> nat option" where
  "timeout Background = None"
| "timeout Inbound = None"
| "timeout (WithRemoteSpan _ c) = timeout c"
| "timeout (WithSpan _ c) = timeout c"
| "timeout (WithTimeout d c) = (case timeout c of None \<Rightarrow> Some d | Some d' \<Rightarrow> Some (min d d'))"

text \<open>The context a context was derived from in the end.\<close>

fun root :: "context \<Rightarrow> context" where
  "root Background = Background"
| "root Inbound = Inbound"
| "root (WithRemoteSpan _ c) = root c"
| "root (WithSpan _ c) = root c"
| "root (WithTimeout _ c) = root c"

text \<open>
  Whether a context is done (\<^verbatim>\<open>Done\<close> is closed), given whether the context of the
  request being served is done and the seconds that have passed since the context was
  made. A context with a value is done with its parent; one with a timeout is done
  with its parent or when its time is over. A request made by
  \<^verbatim>\<open>http.NewRequestWithContext\<close> is abandoned by the client when its context is done;
  neither service gives its \<^verbatim>\<open>http.Client\<close> a timeout of its own.
\<close>

fun Done :: "bool \<Rightarrow> nat \<Rightarrow> context \<Rightarrow> bool" where
  "Done cancelled elapsed Background = False"
| "Done cancelled elapsed Inbound = cancelled"
| "Done cancelled elapsed (WithRemoteSpan _ c) = Done cancelled elapsed c"
| "Done cancelled elapsed (WithSpan _ c) = Done cancelled elapsed c"
| "Done cancelled elapsed (WithTimeout d c) = (d \<le> elapsed \<or> Done cancelled elapsed c)"

text \<open>
  A byte slice read from a body is kept together with what the JSON scanner makes of
  it: the value it holds, or the scanner's error. The reading is that of the call
  that consumes the body: \<^verbatim>\<open>json.Unmarshal\<close> reads the whole slice, a
  \<^verbatim>\<open>json.Decoder\<close> the first value of the stream.
\<close>

datatype payload = Payload (bytes: string) (scanned: "go_error + json")

text \<open>An outbound request, and the response an \<^verbatim>\<open>http.Client\<close> hands back.\<close>

record Request =
  Method :: string
  URL :: string
  Ctx :: "context"
  Injected :: "context option"

record Response =
  StatusCode :: nat
  Body :: "go_error + payload"

text \<open>
  The request being served: its query parameters, its body (\<open>Inl\<close> when reading it
  fails), and the trace its headers carry, if any.
\<close>

record Incoming =
  Query :: "(string \<times> string) list"
  Payload_in :: "go_error + payload"
  Traceparent :: "string option"

definition Query_Get :: "Incoming \<Rightarrow> string \<Rightarrow> string" where
  "Query_Get r key = (case map_of (Query r) key of Some v \<Rightarrow> v | None \<Rightarrow> [])"

definition Extract :: "context \<Rightarrow> Incoming \<Rightarrow> context" where
  "Extract ctx r = (case Traceparent r of None \<Rightarrow> ctx | Some sc \<Rightarrow> WithRemoteSpan sc ctx)"

text \<open>
  What lies outside the process: the configured base URL of the resolver, the verdict
  of \<^verbatim>\<open>url.Parse\<close> on a URL, and the answer of the network to a request
  (\<open>Inl\<close> is a transport failure).
\<close>

record env =
  EXTERNAL_CALL_URL :: string
  url_Parse :: "string \<Rightarrow> go_error option"
  RoundTrip :: "Request \<Rightarrow> go_error + Response"

text \<open>
  Text written to a response is a sequence of pieces: literal bytes, the message of an
  error (\<^verbatim>\<open>err.Error()\<close>), or the encoding of a JSON value.
\<close>

datatype piece = Str string | ErrorText go_error | Encoded json

type_synonym gostring = "piece list"

definition newline :: string where
  "newline = [CHR 0x0A]"

fun plain :: "gostring \<Rightarrow> string option" where
  "plain [] = Some []"
| "plain (Str s # ps) = (case plain ps of None \<Rightarrow> None | Some t \<Rightarrow> Some (s @ t))"
| "plain (_ # ps) = None"

text \<open>
  The response writer of net/http. \<open>WriteHeader\<close> is ignored once a header is out; an
  informational code (1xx other than 101) is sent on its own and leaves the response
  open. \<open>Write\<close> sends status 200 first when no header is out, and then refuses the
  data (\<^verbatim>\<open>ErrBodyNotAllowed\<close>) when the status of the response allows no body: 1xx,
  204 and 304. \<open>written\<close> holds the data \<open>Write\<close> accepted, one entry for each call
  (for a \<^verbatim>\<open>HEAD\<close> request the server accepts the data and leaves it out of what it
  transmits; the method of the request being served is not kept).
  A code outside \<open>100..999\<close> makes \<open>WriteHeader\<close> panic (\<open>checkWriteHeaderCode\<close>): every
  call below passes a constant, except the relay of the gateway, which checks.
\<close>

record ResponseWriter =
  wroteHeader :: bool
  status :: nat
  informational :: "nat list"
  header :: "string \<rightharpoonup> string"
  written :: "gostring list"

definition NewResponseWriter :: ResponseWriter where
  "NewResponseWriter = \<lparr>wroteHeader = False, status = 0, informational = [], header = Map.empty, written = []\<rparr>"

definition checkWriteHeaderCode :: "nat \<Rightarrow> bool" where
  "checkWriteHeaderCode code = (100 \<le> code \<and> code \<le> 999)"

definition bodyAllowedForStatus :: "nat \<Rightarrow> bool" where
  "bodyAllowedForStatus code =
     (if 100 \<le> code \<and> code \<le> 199 then False
      else if code = 204 then False
      else if code = 304 then False
      else True)"

definition WriteHeader :: "nat \<Rightarrow> ResponseWriter \<Rightarrow> ResponseWriter" where
  "WriteHeader code w =
     (if wroteHeader w then w
      else if 100 \<le> code \<and> code \<le> 199 \<and> code \<noteq> 101
        then w\<lparr>informational := informational w @ [code]\<rparr>
      else w\<lparr>wroteHeader := True, status := code\<rparr>)"

definition Write :: "gostring \<Rightarrow> ResponseWriter \<Rightarrow> ResponseWriter" where
  "Write data w =
     (let w' = (if wroteHeader w then w else WriteHeader 200 w)
      in if bodyAllowedForStatus (status w') then w'\<lparr>written := written w' @ [data]\<rparr> else w')"

definition Header_Set :: "string \<Rightarrow> string \<Rightarrow> ResponseWriter \<Rightarrow> ResponseWriter" where
  "Header_Set k v w = w\<lparr>header := (header w)(k \<mapsto> v)\<rparr>"

text \<open>\<^verbatim>\<open>http.Error\<close>: two headers, the status, and the message followed by a newline.\<close>

definition http_Error :: "ResponseWriter \<Rightarrow> gostring \<Rightarrow> nat \<Rightarrow> ResponseWriter" where
  "http_Error w msg code =
     Write (msg @ [Str newline])
       (WriteHeader code
         (Header_Set ''X-Content-Type-Options'' ''nosniff''
           (Header_Set ''Content-Type'' ''text/plain; charset=utf-8'' w)))"

text \<open>
  The state a handler works on: the response writer it was given, and the requests
  that have been sent out so far, oldest first.
\<close>

record state =
  rw :: ResponseWriter
  sent :: "Request list"

definition initial :: state where
  "initial = \<lparr>rw = NewResponseWriter, sent = []\<rparr>"

definition respond :: "state \<Rightarrow> gostring \<Rightarrow> nat \<Rightarrow> state" where
  "respond st msg code = st\<lparr>rw := http_Error (rw st) msg code\<rparr>"

definition NewRequestWithContext :: "env \<Rightarrow> context \<Rightarrow> string \<Rightarrow> string \<Rightarrow> go_error + Request" where
  "NewRequestWithContext E ctx method url =
     (case url_Parse E url of
        Some err \<Rightarrow> Inl err
      | None \<Rightarrow> Inr \<lparr>Method = method, URL = url, Ctx = ctx, Injected = None\<rparr>)"

definition Do :: "env \<Rightarrow> Request \<Rightarrow> state \<Rightarrow> (go_error + Response) \<times> state" where
  "Do E req st = (RoundTrip E req, st\<lparr>sent := sent st @ [req]\<rparr>)"

definition io_ReadAll :: "go_error + payload \<Rightarrow> go_error + payload" where
  "io_ReadAll body = body"

definition Unmarshal :: "string \<Rightarrow> 's field list \<Rightarrow> payload \<Rightarrow> 's \<Rightarrow> go_error + 's" where
  "Unmarshal tname fs p s =
     (case scanned p of Inl err \<Rightarrow> Inl err | Inr v \<Rightarrow> unmarshal tname fs v s)"

definition Decode :: "string \<Rightarrow> 's field list \<Rightarrow> go_error + payload \<Rightarrow> 's \<Rightarrow> go_error + 's" where
  "Decode tname fs body s =
     (case body of Inl err \<Rightarrow> Inl err | Inr p \<Rightarrow> Unmarshal tname fs p s)"

text \<open>\<^verbatim>\<open>url.QueryEscape\<close>: letters, digits and \<^verbatim>\<open>-_.~\<close> stay, a space becomes \<^verbatim>\<open>+\<close>,
  every other byte becomes \<^verbatim>\<open>%XX\<close>.\<close>

definition shouldEscape :: "char \<Rightarrow> bool" where
  "shouldEscape c =
     (c \<notin> set ''abcdefghijklmnopqrstuvwxyzABCDEFGHIJKLMNOPQRSTUVWXYZ0123456789-_.~'')"

definition upperhex :: "nat \<Rightarrow> char" where
  "upperhex d = ''0123456789ABCDEF'' ! d"

definition QueryEscape :: "string \<Rightarrow> string" where
  "QueryEscape s = concat (map (\<lambda>c.
     if c = CHR '' '' then ''+''
     else if shouldEscape c
       then [CHR ''%'', upperhex ((of_char c :: nat) div 16), upperhex ((of_char c :: nat) mod 16)]
     else [c]) s)"

section \<open>The resolver (service-b)\<close>

subsection \<open>Its structs\<close>

record ViaCepError =
  Erro :: bool

record ViaCep =
  Cep :: string
  Logradouro :: string
  Complemento :: string
  Bairro :: string
  Localidade :: string
  Uf :: string
  Ibge :: string
  Gia :: string
  Ddd :: string
  Siafi :: string

record Weather_Location =
  Name :: string
  Region :: string
  Country :: string
  Lat :: float64
  Lon :: float64
  TzID :: string
  LocaltimeEpoch :: int
  Localtime :: string

record Weather_Current =
  TempC :: float64
  Condition :: unit

record Weather =
  Location :: Weather_Location
  Current :: Weather_Current

record TemperatureWithCity =
  Celsius :: float64
  Fahrenheit :: float64
  Kelvin :: float64
  CityName :: string

text \<open>A variable declared without a value holds the zero value of its type.\<close>

definition zero_ViaCepError :: ViaCepError where
  "zero_ViaCepError = \<lparr>Erro = False\<rparr>"

definition zero_ViaCep :: ViaCep where
  "zero_ViaCep = \<lparr>Cep = [], Logradouro = [], Complemento = [], Bairro = [], Localidade = [],
     Uf = [], Ibge = [], Gia = [], Ddd = [], Siafi = []\<rparr>"

definition zero_Weather :: Weather where
  "zero_Weather = \<lparr>
     Location = \<lparr>Name = [], Region = [], Country = [], Lat = Finite 0, Lon = Finite 0,
       TzID = [], LocaltimeEpoch = 0, Localtime = []\<rparr>,
     Current = \<lparr>TempC = Finite 0, Condition = ()\<rparr>\<rparr>"

definition zero_TemperatureWithCity :: TemperatureWithCity where
  "zero_TemperatureWithCity = \<lparr>Celsius = Finite 0, Fahrenheit = Finite 0, Kelvin = Finite 0, CityName = []\<rparr>"

text \<open>The fields of each struct with the names of their \<^verbatim>\<open>json\<close> tags.\<close>

definition ViaCepError_fields :: "ViaCepError field list" where
  "ViaCepError_fields = [bool_field ''erro'' (\<lambda>x s. s\<lparr>Erro := x\<rparr>)]"

definition ViaCep_fields :: "ViaCep field list" where
  "ViaCep_fields =
    [string_field ''cep'' (\<lambda>x s. s\<lparr>Cep := x\<rparr>),
     string_field ''logradouro'' (\<lambda>x s. s\<lparr>Logradouro := x\<rparr>),
     string_field ''complemento'' (\<lambda>x s. s\<lparr>Complemento := x\<rparr>),
     string_field ''bairro'' (\<lambda>x s. s\<lparr>Bairro := x\<rparr>),
     string_field ''localidade'' (\<lambda>x s. s\<lparr>Localidade := x\<rparr>),
     string_field ''uf'' (\<lambda>x s. s\<lparr>Uf := x\<rparr>),
     string_field ''ibge'' (\<lambda>x s. s\<lparr>Ibge := x\<rparr>),
     string_field ''gia'' (\<lambda>x s. s\<lparr>Gia := x\<rparr>),
     string_field ''ddd'' (\<lambda>x s. s\<lparr>Ddd := x\<rparr>),
     string_field ''siafi'' (\<lambda>x s. s\<lparr>Siafi := x\<rparr>)]"

definition Location_fields :: "Weather_Location field list" where
  "Location_fields =
    [string_field ''name'' (\<lambda>x s. s\<lparr>Name := x\<rparr>),
     string_field ''region'' (\<lambda>x s. s\<lparr>Region := x\<rparr>),
     string_field ''country'' (\<lambda>x s. s\<lparr>Country := x\<rparr>),
     float64_field ''lat'' (\<lambda>x s. s\<lparr>Lat := x\<rparr>),
     float64_field ''lon'' (\<lambda>x s. s\<lparr>Lon := x\<rparr>),
     string_field ''tz_id'' (\<lambda>x s. s\<lparr>TzID := x\<rparr>),
     int_field ''localtime_epoch'' (\<lambda>x s. s\<lparr>LocaltimeEpoch := x\<rparr>),
     string_field ''localtime'' (\<lambda>x s. s\<lparr>Localtime := x\<rparr>)]"

definition Current_fields :: "Weather_Current field list" where
  "Current_fields =
    [float64_field ''temp_c'' (\<lambda>x s. s\<lparr>TempC := x\<rparr>),
     struct_field ''condition'' [] Condition (\<lambda>x s. s\<lparr>Condition := x\<rparr>)]"

definition Weather_fields :: "Weather field list" where
  "Weather_fields =
    [struct_field ''location'' Location_fields Location (\<lambda>x s. s\<lparr>Location := x\<rparr>),
     struct_field ''current'' Current_fields Current (\<lambda>x s. s\<lparr>Current := x\<rparr>)]"

definition TemperatureWithCity_fields :: "TemperatureWithCity field list" where
  "TemperatureWithCity_fields =
    [float64_field ''temp_C'' (\<lambda>x s. s\<lparr>Celsius := x\<rparr>),
     float64_field ''temp_F'' (\<lambda>x s. s\<lparr>Fahrenheit := x\<rparr>),
     float64_field ''temp_K'' (\<lambda>x s. s\<lparr>Kelvin := x\<rparr>),
     string_field ''city'' (\<lambda>x s. s\<lparr>CityName := x\<rparr>)]"

text \<open>
  Encoding a \<open>TemperatureWithCity\<close>: an object with the four members in declaration
  order, or the error of the first float64 that cannot be encoded.
\<close>

definition marshal_TemperatureWithCity :: "TemperatureWithCity \<Rightarrow> go_error + json" where
  "marshal_TemperatureWithCity t =
     (case float64_json (Celsius t) of Inl err \<Rightarrow> Inl err | Inr c \<Rightarrow>
      (case float64_json (Fahrenheit t) of Inl err \<Rightarrow> Inl err | Inr f \<Rightarrow>
       (case float64_json (Kelvin t) of Inl err \<Rightarrow> Inl err | Inr k \<Rightarrow>
          Inr (JObject [(''temp_C'', c), (''temp_F'', f), (''temp_K'', k),
                        (''city'', JString (CityName t))]))))"

text \<open>
  \<^verbatim>\<open>json.NewEncoder(w).Encode(v)\<close> encodes into a buffer first: on an error nothing is
  written and the error is returned; otherwise the encoding and a newline go out in
  one write. Both services drop the value \<open>Encode\<close> returns.
\<close>

definition Encode :: "TemperatureWithCity \<Rightarrow> ResponseWriter \<Rightarrow> ResponseWriter" where
  "Encode t w =
     (case marshal_TemperatureWithCity t of
        Inl err \<Rightarrow> w
      | Inr j \<Rightarrow> Write [Encoded j, Str newline] w)"

subsection \<open>getViaCep\<close>

definition getViaCep :: "env \<Rightarrow> context \<Rightarrow> string \<Rightarrow> Incoming \<Rightarrow> state \<Rightarrow> ViaCep option \<times> state" where
  "getViaCep E ctx0 zipCode r st =
     (let ctx = WithSpan ''getViaCep'' (Extract ctx0 r);
          url = ''http://viacep.com.br/ws/'' @ zipCode @ ''/json/''
      in case NewRequestWithContext E ctx ''GET'' url of
           Inl err \<Rightarrow>
             (None, respond st [Str ''Failed to create request (viacep): '', ErrorText err] 500)
         | Inr req \<Rightarrow>
             (case Do E req st of
                (Inl err, st1) \<Rightarrow>
                  (None, respond st1 [Str ''Failed to make HTTP request (viacep): '', ErrorText err] 500)
              | (Inr res, st1) \<Rightarrow>
                  if StatusCode res \<noteq> 200 then (None, respond st1 [Str ''Invalid zipcode''] 422)
                  else
                    (case io_ReadAll (Body res) of
                       Inl err \<Rightarrow>
                         (None, respond st1 [Str ''Failed to read response body: '', ErrorText err] 500)
                     | Inr bodyBytes \<Rightarrow>
                         (case Unmarshal ''ViaCepError'' ViaCepError_fields bodyBytes zero_ViaCepError of
                            Inl err \<Rightarrow>
                              (None, respond st1 [Str ''Failed to decode response (viacep): '', ErrorText err] 500)
                          | Inr viaCepErrorResponse \<Rightarrow>
                              if Erro viaCepErrorResponse
                              then (None, respond st1 [Str ''Cannot find zipcode''] 404)
                              else
                                (case Unmarshal ''ViaCep'' ViaCep_fields bodyBytes zero_ViaCep of
                                   Inl err \<Rightarrow>
                                     (None, respond st1 [Str ''Failed to decode response (viacep): '', ErrorText err] 500)
                                 | Inr viaCepResponse \<Rightarrow>
                                     if Localidade viaCepResponse = []
                                     then (None, respond st1 [Str ''Invalid zipcode''] 422)
                                     else (Some viaCepResponse, st1))))))"

subsection \<open>getWeather\<close>

definition getWeather :: "env \<Rightarrow> context \<Rightarrow> string \<Rightarrow> Incoming \<Rightarrow> state \<Rightarrow> Weather option \<times> state" where
  "getWeather E ctx0 cityName r st =
     (let ctx = WithSpan ''getWeather'' (Extract ctx0 r);
          cityNameEncoded = QueryEscape cityName;
          url = ''http://api.weatherapi.com/v1/current.json?key=a91eb948a337442782b123810242601&q=''
                  @ cityNameEncoded
      in case NewRequestWithContext E ctx ''GET'' url of
           Inl err \<Rightarrow>
             (None, respond st [Str ''Failed to create request (weather): '', ErrorText err] 500)
         | Inr req \<Rightarrow>
             (case Do E req st of
                (Inl err, st1) \<Rightarrow>
                  (None, respond st1 [Str ''Failed to make HTTP request (weather): '', ErrorText err] 500)
              | (Inr res, st1) \<Rightarrow>
                  if StatusCode res \<noteq> 200 then (None, respond st1 [Str ''Invalid zipcode''] 422)
                  else
                    (case Decode ''Weather'' Weather_fields (Body res) zero_Weather of
                       Inl err \<Rightarrow>
                         (None, respond st1 [Str ''Failed to decode response (weather): '', ErrorText err] 500)
                     | Inr response \<Rightarrow> (Some response, st1))))"

subsection \<open>validParams and cityWeatherHandler\<close>

definition validParams :: "Incoming \<Rightarrow> state \<Rightarrow> bool \<times> state" where
  "validParams r st =
     (if Query_Get r ''zipcode'' = []
      then (False, respond st [Str ''Missing 'zipcode' parameter''] 400)
      else (True, st))"

text \<open>The struct literal of \<open>cityWeatherHandler\<close>, with the arithmetic of float64.\<close>

definition temperatureWithCity :: "Weather \<Rightarrow> string \<Rightarrow> TemperatureWithCity" where
  "temperatureWithCity weatherReturn cityName = \<lparr>
     Celsius = TempC (Current weatherReturn),
     Fahrenheit = f64_add (f64_div (f64_mul (TempC (Current weatherReturn)) (Finite 9)) (Finite 5)) (Finite 32),
     Kelvin = f64_add (TempC (Current weatherReturn)) (f64_const (27315 / 100)),
     CityName = cityName\<rparr>"

definition cityWeatherHandler :: "env \<Rightarrow> Incoming \<Rightarrow> state \<Rightarrow> state" where
  "cityWeatherHandler E r st =
     (let ctx = WithSpan ''cityWeatherHandler'' (Extract Inbound r)
      in case validParams r st of
           (False, st1) \<Rightarrow> st1
         | (True, st1) \<Rightarrow>
             (let zipCode = Query_Get r ''zipcode''
              in case getViaCep E ctx zipCode r st1 of
                   (None, st2) \<Rightarrow> st2
                 | (Some viacepReturn, st2) \<Rightarrow>
                     (let cityName = Localidade viacepReturn
                      in case getWeather E ctx cityName r st2 of
                           (None, st3) \<Rightarrow> st3
                         | (Some weatherReturn, st3) \<Rightarrow>
                             st3\<lparr>rw := Encode (temperatureWithCity weatherReturn cityName)
                                         (Header_Set ''Content-Type'' ''application/json'' (rw st3))\<rparr>)))"

section \<open>The gateway (service-a)\<close>

record Message =
  ZipCode :: string

definition zero_Message :: Message where
  "zero_Message = \<lparr>ZipCode = []\<rparr>"

definition Message_fields :: "Message field list" where
  "Message_fields = [string_field ''cep'' (\<lambda>x s. s\<lparr>ZipCode := x\<rparr>)]"

text \<open>
  The regular expression \<^verbatim>\<open>^\d{8}$\<close>: in Go's syntax \<^verbatim>\<open>\d\<close> is an ASCII digit and,
  without the multi-line flag, \<^verbatim>\<open>$\<close> matches at the end of the text only. A string
  matches if and only if it is eight ASCII digits.
\<close>

definition isDigit :: "char \<Rightarrow> bool" where
  "isDigit c = (c \<in> set ''0123456789'')"

definition zipCodeRegex_MatchString :: "string \<Rightarrow> bool" where
  "zipCodeRegex_MatchString s = (length s = 8 \<and> list_all isDigit s)"

definition makeHTTPRequestWithPropagation :: "env \<Rightarrow> context \<Rightarrow> string \<Rightarrow> state \<Rightarrow> (go_error + Response) \<times> state" where
  "makeHTTPRequestWithPropagation E ctx url st =
     (case NewRequestWithContext E ctx ''GET'' url of
        Inl err \<Rightarrow> (Inl err, st)
      | Inr req \<Rightarrow> Do E (req\<lparr>Injected := Some ctx\<rparr>) st)"

text \<open>A handler either returns or panics; a panic ends the connection without a response.\<close>

datatype outcome = Completed state | Panicked string state

definition zipcodeHandler :: "env \<Rightarrow> Incoming \<Rightarrow> state \<Rightarrow> outcome" where
  "zipcodeHandler E r st =
     (let ctx = WithSpan ''zipcodeHandler'' (Extract Inbound r)
      in case Decode ''Message'' Message_fields (Payload_in r) zero_Message of
           Inl err \<Rightarrow> Completed (respond st [ErrorText err] 400)
         | Inr msg \<Rightarrow>
             if \<not> zipCodeRegex_MatchString (ZipCode msg)
             then Completed (respond st [Str ''Invalid zipcode''] 422)
             else
               (case makeHTTPRequestWithPropagation E ctx
                       (EXTERNAL_CALL_URL E @ ''/city-weather?zipcode='' @ ZipCode msg) st of
                  (Inl err, st1) \<Rightarrow> Completed (respond st1 [ErrorText err] 500)
                | (Inr resp, st1) \<Rightarrow>
                    if StatusCode resp \<noteq> 200 then
                      (case io_ReadAll (Body resp) of
                         Inl err \<Rightarrow> Completed (respond st1 [Str ''Failed to read response body''] 500)
                       | Inr body \<Rightarrow>
                           if wroteHeader (rw st1) \<or> checkWriteHeaderCode (StatusCode resp)
                           then Completed (respond st1 [Str (bytes body)] (StatusCode resp))
                           else Panicked ''invalid WriteHeader code'' st1)
                    else
                      (case Decode ''TemperatureWithCity'' TemperatureWithCity_fields (Body resp)
                              zero_TemperatureWithCity of
                         Inl err \<Rightarrow> Completed (respond st1 [ErrorText err] 500)
                       | Inr cityWeatherResponse \<Rightarrow>
                           Completed (st1\<lparr>rw := Encode cityWeatherResponse
                             (WriteHeader 200
                               (Header_Set ''Content-Type'' ''application/json'' (rw st1)))\<rparr>))))"

text \<open>The requests the resolver sends for an inbound request, written out.\<close>

definition viacep_request :: "Incoming \<Rightarrow> Request" where
  "viacep_request r = \<lparr>
     Method = ''GET'',
     URL = ''http://viacep.com.br/ws/'' @ Query_Get r ''zipcode'' @ ''/json/'',
     Ctx = WithSpan ''getViaCep'' (Extract (WithSpan ''cityWeatherHandler'' (Extract Inbound r)) r),
     Injected = None\<rparr>"

definition weather_request :: "Incoming \<Rightarrow> string \<Rightarrow> Request" where
  "weather_request r cityName = \<lparr>
     Method = ''GET'',
     URL = ''http://api.weatherapi.com/v1/current.json?key=a91eb948a337442782b123810242601&q=''
             @ QueryEscape cityName,
     Ctx = WithSpan ''getWeather'' (Extract (WithSpan ''cityWeatherHandler'' (Extract Inbound r)) r),
     Injected = None\<rparr>"

text \<open>The request the gateway sends for a postal code.\<close>

definition resolver_request :: "env \<Rightarrow> Incoming \<Rightarrow> string \<Rightarrow> Request" where
  "resolver_request E r zipCode = \<lparr>
     Method = ''GET'',
     URL = EXTERNAL_CALL_URL E @ ''/city-weather?zipcode='' @ zipCode,
     Ctx = WithSpan ''zipcodeHandler'' (Extract Inbound r),
     Injected = Some (WithSpan ''zipcodeHandler'' (Extract Inbound r))\<rparr>"

section \<open>Observing a run\<close>

text \<open>The state a handler was in when it returned or panicked.\<close>

fun state_of :: "outcome \<Rightarrow> state" where
  "state_of (Completed st) = st"
| "state_of (Panicked m st) = st"

fun panicked :: "outcome \<Rightarrow> bool" where
  "panicked (Completed st) = False"
| "panicked (Panicked m st) = True"

text \<open>
  A JSON object lacks a field when none of its keys folds to the field's name. Its
  members fit \<open>TemperatureWithCity\<close> when every member that names a temperature is a
  number in the range of float64 or \<^verbatim>\<open>null\<close>, and every member that names the city is a
  string or \<^verbatim>\<open>null\<close>; members of any other name are free.
\<close>

definition lacks :: "(string \<times> json) list \<Rightarrow> string \<Rightarrow> bool" where
  "lacks kvs name = list_all (\<lambda>(k, v). foldName k \<noteq> foldName name) kvs"




text \<open>
  What an object says about a field: the value of the last member whose key folds to
  the field's name and that is not \<^verbatim>\<open>null\<close>, or \<^verbatim>\<open>null\<close> when there is none; as a
  float64 (0 when it is not a number float64 holds) and as a string (empty when it is
  not a string).
\<close>

definition last_member :: "(string \<times> json) list \<Rightarrow> string \<Rightarrow> json" where
  "last_member kvs name =
     (case filter (\<lambda>(k, v). foldName k = foldName name \<and> v \<noteq> JNull) kvs of
        [] \<Rightarrow> JNull
      | m # ms \<Rightarrow> snd (last (m # ms)))"



text \<open>
  What the two lookups hand to \<open>cityWeatherHandler\<close> for a request, when the
  parameter is there and both return a result; \<open>None\<close> when the parameter is missing
  or one of them returns nil.
\<close>

definition lookups :: "env \<Rightarrow> Incoming \<Rightarrow> (ViaCep \<times> Weather) option" where
  "lookups E r =
     (if Query_Get r ''zipcode'' = [] then None
      else
        (case getViaCep E (WithSpan ''cityWeatherHandler'' (Extract Inbound r))
                (Query_Get r ''zipcode'') r initial of
           (None, st2) \<Rightarrow> None
         | (Some v, st2) \<Rightarrow>
             (case getWeather E (WithSpan ''cityWeatherHandler'' (Extract Inbound r))
                     (Localidade v) r st2 of
                (None, st3) \<Rightarrow> None
              | (Some wr, st3) \<Rightarrow> Some (v, wr))))"

section \<open>Concrete requests and networks\<close>

text \<open>
  A network is given by the answers of the postal-lookup API, of the weather API and
  of the resolver; every URL parses.
\<close>

definition network :: "go_error + Response \<Rightarrow> go_error + Response \<Rightarrow> go_error + Response \<Rightarrow> env" where
  "network viacep weather resolver = \<lparr>
     EXTERNAL_CALL_URL = ''http://go-service-b:8181'',
     url_Parse = (\<lambda>url. None),
     RoundTrip = (\<lambda>req.
       if take 20 (URL req) = ''http://viacep.com.br'' then viacep
       else if take 25 (URL req) = ''http://api.weatherapi.com'' then weather
       else resolver)\<rparr>"

text \<open>
  The same surroundings with the first check of \<^verbatim>\<open>url.Parse\<close> in place: a URL that
  holds an ASCII control character (a byte below \<open>0x20\<close>, or \<open>0x7F\<close>) is refused.
\<close>

definition control_bytes :: string where
  "control_bytes =
     [CHR 0x00, CHR 0x01, CHR 0x02, CHR 0x03, CHR 0x04, CHR 0x05, CHR 0x06, CHR 0x07,
      CHR 0x08, CHR 0x09, CHR 0x0A, CHR 0x0B, CHR 0x0C, CHR 0x0D, CHR 0x0E, CHR 0x0F,
      CHR 0x10, CHR 0x11, CHR 0x12, CHR 0x13, CHR 0x14, CHR 0x15, CHR 0x16, CHR 0x17,
      CHR 0x18, CHR 0x19, CHR 0x1A, CHR 0x1B, CHR 0x1C, CHR 0x1D, CHR 0x1E, CHR 0x1F,
      CHR 0x7F]"

definition stringContainsCTLByte :: "string \<Rightarrow> bool" where
  "stringContainsCTLByte s = list_ex (\<lambda>b. b \<in> set control_bytes) s"

definition control_characters_refused :: "env \<Rightarrow> env" where
  "control_characters_refused E = E\<lparr>url_Parse := (\<lambda>url.
     if stringContainsCTLByte url then Some (Failure ''net/url: invalid control character in URL'')
     else url_Parse E url)\<rparr>"

definition ok :: "payload \<Rightarrow> go_error + Response" where
  "ok p = Inr \<lparr>StatusCode = 200, Body = Inr p\<rparr>"

definition unreachable :: "go_error + Response" where
  "unreachable = Inl (Failure ''dial tcp: connection refused'')"

definition viacep_found :: payload where
  \<open>viacep_found = Payload ''{"cep": "01001-000", "localidade": "Sao Paulo", "uf": "SP"}''
     (Inr (JObject [(''cep'', JString ''01001-000''), (''localidade'', JString ''Sao Paulo''),
                    (''uf'', JString ''SP'')]))\<close>

definition viacep_erro :: payload where
  \<open>viacep_erro = Payload ''{"erro": true}'' (Inr (JObject [(''erro'', JBool True)]))\<close>

definition viacep_no_locality :: payload where
  \<open>viacep_no_locality = Payload ''{"cep": "01001-000", "localidade": ""}''
     (Inr (JObject [(''cep'', JString ''01001-000''), (''localidade'', JString [])]))\<close>

definition weather_at :: "number \<Rightarrow> payload" where
  \<open>weather_at n = Payload ''{"location": {"name": "Sao Paulo"}, "current": {"temp_c": ...}}''
     (Inr (JObject [(''location'', JObject [(''name'', JString ''Sao Paulo'')]),
                    (''current'', JObject [(''temp_c'', JNumber n)])]))\<close>

definition lookup_request :: "string \<Rightarrow> Incoming" where
  "lookup_request zipCode =
     \<lparr>Query = [(''zipcode'', zipCode)], Payload_in = Inr (Payload [] (Inl (Failure ''EOF''))),
      Traceparent = None\<rparr>"

definition post_request :: "payload \<Rightarrow> Incoming" where
  "post_request p = \<lparr>Query = [], Payload_in = Inr p, Traceparent = None\<rparr>"

definition cep_body :: "string \<Rightarrow> payload" where
  \<open>cep_body z = Payload (''{"cep": "'' @ z @ ''"}'') (Inr (JObject [(''cep'', JString z)]))\<close>

text \<open>The report for 25 degrees Celsius in Sao Paulo, as JSON.\<close>

definition report_25 :: json where
  "report_25 = JObject
     [(''temp_C'', JNumber (FormatFloat 25)),
      (''temp_F'', JNumber (FormatFloat 77)),
      (''temp_K'', JNumber (FormatFloat (2622555134571315 / 8796093022208))),
      (''city'', JString ''Sao Paulo'')]"

text \<open>A Celsius value that float64 holds and whose ninefold it does not.\<close>

definition huge :: rat where
  "huge = 2 ^ 1023"

section \<open>Properties of the float64 rounding\<close>

lemma pow2_powi: "pow2 e = 2 powi e"
  by (simp add: pow2_def power_int_def inverse_eq_divide power_one_over)

lemma pow2_pos: "0 < pow2 e"
  by (simp add: pow2_powi)

lemma pow2_strict_mono: "a < b \<Longrightarrow> pow2 a < pow2 b"
  by (simp add: pow2_powi power_int_strict_increasing)

lemma pow2_less_iff: "pow2 a < pow2 b \<longleftrightarrow> a < b"
proof
  assume l: "pow2 a < pow2 b"
  show "a < b"
  proof (rule ccontr)
    assume "\<not> a < b"
    then have "b = a \<or> b < a" by auto
    then have "pow2 b \<le> pow2 a" using pow2_strict_mono [of b a] by auto
    with l show False by simp
  qed
qed (rule pow2_strict_mono)

lemma pow2_add: "pow2 (a + b) = pow2 a * pow2 b"
  by (simp add: pow2_powi power_int_add)

text \<open>\<open>ilog2\<close> finds the binary exponent of its argument.\<close>

lemma ilog2_bounds:
  assumes "x \<noteq> 0"
  shows "pow2 (ilog2 x) \<le> \<bar>x\<bar> \<and> \<bar>x\<bar> < pow2 (ilog2 x + 1)"
proof -
  obtain p q where pq: "quotient_of \<bar>x\<bar> = (p, q)" by (cases "quotient_of \<bar>x\<bar>")
  have q: "0 < q" using pq by (rule quotient_of_denom_pos)
  have x: "\<bar>x\<bar> = of_int p / of_int q" using pq by (rule quotient_of_div)
  have "0 < \<bar>x\<bar>" using assms by simp
  then have p: "0 < p" using q x by (simp add: zero_less_divide_iff)
  define k where "k = bitlen p - bitlen q"
  have bp: "p < 2 ^ nat (bitlen p)" and bq: "2 ^ nat (bitlen q - 1) \<le> q"
    using bitlen_bounds [OF p] bitlen_bounds [OF q] by simp_all
  have q1: "1 \<le> bitlen q" using q bitlen_eq_zero_iff [of q] bitlen_nonneg [of q] by linarith
  have "(of_int p :: rat) < of_int (2 ^ nat (bitlen p))" using bp by (simp only: of_int_less_iff)
  then have p': "(of_int p :: rat) < pow2 (bitlen p)"
    using bitlen_nonneg [of p] by (simp add: pow2_def)
  have "(of_int (2 ^ nat (bitlen q - 1)) :: rat) \<le> of_int q" using bq by (simp only: of_int_le_iff)
  then have q': "pow2 (bitlen q - 1) \<le> (of_int q :: rat)"
    using q1 by (simp add: pow2_def)
  have "\<bar>x\<bar> * of_int q < pow2 (bitlen p)" using p' x q by simp
  also have "pow2 (bitlen p) = pow2 (k + 1) * pow2 (bitlen q - 1)"
    by (simp add: k_def flip: pow2_add)
  also have "\<dots> \<le> pow2 (k + 1) * of_int q"
    using q' pow2_pos [of "k + 1"] by simp
  finally have up: "\<bar>x\<bar> < pow2 (k + 1)" using q by simp
  show ?thesis
  proof (cases "pow2 k \<le> \<bar>x\<bar>")
    case True
    then have "ilog2 x = k" by (simp add: ilog2_def pq k_def)
    with True up show ?thesis by simp
  next
    case False
    then have i: "ilog2 x = k - 1" by (simp add: ilog2_def pq k_def Let_def)
    have bp2: "2 ^ nat (bitlen p - 1) \<le> p" and bq2: "q < 2 ^ nat (bitlen q)"
      using bitlen_bounds [OF p] bitlen_bounds [OF q] by simp_all
    have p1: "1 \<le> bitlen p" using p bitlen_eq_zero_iff [of p] bitlen_nonneg [of p] by linarith
    have "(of_int (2 ^ nat (bitlen p - 1)) :: rat) \<le> of_int p" using bp2 by (simp only: of_int_le_iff)
    then have p2: "pow2 (bitlen p - 1) \<le> (of_int p :: rat)" using p1 by (simp add: pow2_def)
    have "(of_int q :: rat) < of_int (2 ^ nat (bitlen q))" using bq2 by (simp only: of_int_less_iff)
    then have q2: "(of_int q :: rat) < pow2 (bitlen q)" using bitlen_nonneg [of q] by (simp add: pow2_def)
    have "pow2 (k - 1) * of_int q \<le> pow2 (k - 1) * pow2 (bitlen q)"
      using q2 pow2_pos [of "k - 1"] by simp
    also have "\<dots> = pow2 (bitlen p - 1)" by (simp add: k_def flip: pow2_add)
    also have "\<dots> \<le> \<bar>x\<bar> * of_int q" using p2 x q by simp
    finally have "pow2 (k - 1) \<le> \<bar>x\<bar>" using q by simp
    with False i show ?thesis by simp
  qed
qed

lemma ilog2_eqI:
  assumes "pow2 k \<le> \<bar>x\<bar>" and "\<bar>x\<bar> < pow2 (k + 1)"
  shows "ilog2 x = k"
proof -
  have "x \<noteq> 0" using assms(1) pow2_pos [of k] by auto
  from ilog2_bounds [OF this] have a: "pow2 (ilog2 x) \<le> \<bar>x\<bar>" and b: "\<bar>x\<bar> < pow2 (ilog2 x + 1)"
    by simp_all
  have "pow2 k < pow2 (ilog2 x + 1)" using assms(1) b by simp
  moreover have "pow2 (ilog2 x) < pow2 (k + 1)" using assms(2) a by simp
  ultimately show ?thesis by (simp add: pow2_less_iff)
qed

text \<open>Rounding a fraction to the nearest integer, in integer arithmetic.\<close>

lemma round_half_even_eq:
  assumes q: "0 < q" and x: "x * of_int q = of_int p"
  shows "round_half_even x =
     (if 2 * (p mod q) < q then p div q else if q < 2 * (p mod q) then p div q + 1
      else if even (p div q) then p div q else p div q + 1)"
proof -
  have xq: "x = of_int p / of_int q" using q x by (simp add: field_simps)
  have fl: "\<lfloor>x\<rfloor> = p div q"
    unfolding xq by (rule floor_divide_of_int_eq)
  have "(of_int p :: rat) = of_int (p div q * q + p mod q)" by simp
  then have "(of_int p :: rat) = of_int (p div q) * of_int q + of_int (p mod q)"
    by (simp only: of_int_add of_int_mult)
  then have "x = of_int (p div q) + of_int (p mod q) / of_int q"
    unfolding xq using q by (simp add: add_divide_distrib)
  then have d: "x - of_int (p div q) = of_int (p mod q) / of_int q"
    by simp
  have lt: "(of_int (p mod q) / of_int q < (1 / 2 :: rat)) \<longleftrightarrow> 2 * (p mod q) < q"
  proof -
    have "(of_int (p mod q) / of_int q < (1 / 2 :: rat))
        \<longleftrightarrow> (of_int (2 * (p mod q)) :: rat) < of_int q"
      using q by (simp add: field_simps)
    then show ?thesis by (simp only: of_int_less_iff)
  qed
  have gt: "((1 / 2 :: rat) < of_int (p mod q) / of_int q) \<longleftrightarrow> q < 2 * (p mod q)"
  proof -
    have "((1 / 2 :: rat) < of_int (p mod q) / of_int q)
        \<longleftrightarrow> (of_int q :: rat) < of_int (2 * (p mod q))"
      using q by (simp add: field_simps)
    then show ?thesis by (simp only: of_int_less_iff)
  qed
  show ?thesis
    unfolding round_half_even_def Let_def fl d lt gt ..
qed

lemma round_half_even_of_int: "round_half_even (of_int n) = n"
  using round_half_even_eq [of 1 "of_int n" n] by simp

lemma round_f64_pos:
  assumes "pow2 k \<le> x" and "x < pow2 (k + 1)"
  shows "round_f64 x =
     (let e = max (k - 52) (- 1074); y = of_int (round_half_even (x / pow2 e)) * pow2 e
      in if pow2 1024 \<le> y then PosInf else Finite y)"
proof -
  have x: "0 < x" using assms(1) pow2_pos [of k] by simp
  then have "ilog2 x = k" using assms by (intro ilog2_eqI) simp_all
  then show ?thesis using x by (simp add: round_f64_def Let_def)
qed

text \<open>The values the conversion of 25 degrees goes through.\<close>

lemma round_f64_225: "round_f64 225 = Finite 225"
proof -
  have "round_half_even (225 / pow2 (- 45)) = 225 * 2 ^ 45"
    using round_half_even_of_int [of "225 * 2 ^ 45"] by (simp add: pow2_def)
  then show ?thesis
    by (subst round_f64_pos [where k = 7]) (simp_all add: pow2_def)
qed

lemma round_f64_45: "round_f64 45 = Finite 45"
proof -
  have "round_half_even (45 / pow2 (- 47)) = 45 * 2 ^ 47"
    using round_half_even_of_int [of "45 * 2 ^ 47"] by (simp add: pow2_def)
  then show ?thesis
    by (subst round_f64_pos [where k = 5]) (simp_all add: pow2_def)
qed

lemma round_f64_77: "round_f64 77 = Finite 77"
proof -
  have "round_half_even (77 / pow2 (- 46)) = 77 * 2 ^ 46"
    using round_half_even_of_int [of "77 * 2 ^ 46"] by (simp add: pow2_def)
  then show ?thesis
    by (subst round_f64_pos [where k = 6]) (simp_all add: pow2_def)
qed

lemma const_273_15: "f64_const (27315 / 100) = Finite (2402652809016115 / 8796093022208)"
proof -
  have "round_half_even (27315 / 100 / pow2 (- 44)) = 4805305618032230"
    by (subst round_half_even_eq [where q = 5 and p = 24026528090161152]) (simp_all add: pow2_def)
  then show ?thesis
    unfolding f64_const_def by (subst round_f64_pos [where k = 8]) (simp_all add: pow2_def)
qed

lemma const_298_15: "f64_const (29815 / 100) = Finite (2622555134571315 / 8796093022208)"
proof -
  have "round_half_even (29815 / 100 / pow2 (- 44)) = 5245110269142630"
    by (subst round_half_even_eq [where q = 5 and p = 26225551345713152]) (simp_all add: pow2_def)
  then show ?thesis
    unfolding f64_const_def by (subst round_f64_pos [where k = 8]) (simp_all add: pow2_def)
qed

lemma sum_25_273_15:
  "round_f64 (25 + 2402652809016115 / 8796093022208) = Finite (2622555134571315 / 8796093022208)"
proof -
  have "round_half_even ((25 + 2402652809016115 / 8796093022208) / pow2 (- 44)) = 5245110269142630"
    by (subst round_half_even_eq [where q = 1 and p = 5245110269142630]) (simp_all add: pow2_def)
  then show ?thesis
    by (subst round_f64_pos [where k = 8]) (simp_all add: pow2_def)
qed

text \<open>A product beyond the largest finite value overflows.\<close>

lemma round_f64_overflow: "round_f64 (2 ^ 1023 * 9) = PosInf"
proof -
  have "round_half_even (2 ^ 1023 * 9 / pow2 974) = 2 ^ 49 * 9"
    using round_half_even_of_int [of "2 ^ 49 * 9"] by (simp add: pow2_def)
  then show ?thesis
    by (subst round_f64_pos [where k = 1026]) (simp_all add: pow2_def)
qed

lemma fahrenheit_25:
  "f64_add (f64_div (f64_mul (Finite 25) (Finite 9)) (Finite 5)) (Finite 32) = Finite 77"
  by (simp add: round_f64_225 round_f64_45 round_f64_77)

lemma kelvin_25: "f64_add (Finite 25) (f64_const (27315 / 100)) = f64_const (29815 / 100)"
  unfolding const_273_15 const_298_15 f64_add.simps by (rule sum_25_273_15)

section \<open>What a handler leaves in the response writer\<close>

lemma bodyAllowedForStatus_codes [simp]:
  "bodyAllowedForStatus 200" "bodyAllowedForStatus 400" "bodyAllowedForStatus 404"
  "bodyAllowedForStatus 422" "bodyAllowedForStatus 500"
  by (simp_all add: bodyAllowedForStatus_def)

lemma written_respond [simp]:
  "\<not> wroteHeader (rw st) \<Longrightarrow> bodyAllowedForStatus code \<Longrightarrow>
     written (rw (respond st msg code)) = written (rw st) @ [msg @ [Str newline] ]"
  by (auto simp add: respond_def http_Error_def Write_def WriteHeader_def Header_Set_def Let_def
      bodyAllowedForStatus_def)

lemma sent_respond [simp]: "sent (respond st msg code) = sent st"
  by (simp add: respond_def)

lemma status_respond:
  "status (rw (respond st msg code)) =
     (if wroteHeader (rw st) then status (rw st)
      else if 100 \<le> code \<and> code \<le> 199 \<and> code \<noteq> 101 then 200 else code)"
  by (auto simp add: respond_def http_Error_def Write_def WriteHeader_def Header_Set_def Let_def)

lemma wroteHeader_respond [simp]: "wroteHeader (rw (respond st msg code))"
  by (simp add: respond_def http_Error_def Write_def WriteHeader_def Header_Set_def Let_def)

lemma status_respond_initial:
  "\<not> (100 \<le> code \<and> code \<le> 199 \<and> code \<noteq> 101) \<Longrightarrow> status (rw (respond initial msg code)) = code"
  by (simp add: status_respond initial_def NewResponseWriter_def)

lemma cityWeatherHandler_missing:
  "Query_Get r ''zipcode'' = [] \<Longrightarrow>
     cityWeatherHandler E r st = respond st [Str ''Missing 'zipcode' parameter''] 400"
  by (simp add: cityWeatherHandler_def validParams_def)

lemma cityWeatherHandler_present:
  "Query_Get r ''zipcode'' \<noteq> [] \<Longrightarrow>
     cityWeatherHandler E r st =
       (case getViaCep E (WithSpan ''cityWeatherHandler'' (Extract Inbound r))
               (Query_Get r ''zipcode'') r st of
          (None, st2) \<Rightarrow> st2
        | (Some viacepReturn, st2) \<Rightarrow>
            (case getWeather E (WithSpan ''cityWeatherHandler'' (Extract Inbound r))
                    (Localidade viacepReturn) r st2 of
               (None, st3) \<Rightarrow> st3
             | (Some weatherReturn, st3) \<Rightarrow>
                 st3\<lparr>rw := Encode (temperatureWithCity weatherReturn (Localidade viacepReturn))
                             (Header_Set ''Content-Type'' ''application/json'' (rw st3))\<rparr>))"
  by (simp add: cityWeatherHandler_def validParams_def Let_def split: prod.split option.split)

section \<open>Evaluating the concrete runs\<close>

lemmas decode_simps = Unmarshal_def Decode_def unmarshal_def find_field_def string_field_def
  bool_field_def float64_field_def int_field_def struct_field_def upper_def

lemmas run_simps = NewRequestWithContext_def Do_def io_ReadAll_def Let_def

lemmas example_simps = network_def ok_def unreachable_def lookup_request_def post_request_def
  Query_Get_def Extract_def

lemma getViaCep_found:
  "getViaCep (network (ok viacep_found) w x) ctx ''01001000'' r st =
     (Some (zero_ViaCep\<lparr>Cep := ''01001-000'', Localidade := ''Sao Paulo'', Uf := ''SP''\<rparr>),
      st\<lparr>sent := sent st @ [\<lparr>Method = ''GET'', URL = ''http://viacep.com.br/ws/01001000/json/'',
          Ctx = WithSpan ''getViaCep'' (Extract ctx r), Injected = None\<rparr>]\<rparr>)"
  by (simp add: getViaCep_def network_def ok_def viacep_found_def run_simps
      decode_simps ViaCepError_fields_def ViaCep_fields_def zero_ViaCepError_def zero_ViaCep_def)

lemma getWeather_at:
  "getWeather (network v (ok (weather_at (Number (Some c) i))) x) ctx ''Sao Paulo'' r st =
     (Some (zero_Weather\<lparr>Location := (Location zero_Weather)\<lparr>Name := ''Sao Paulo''\<rparr>,
              Current := \<lparr>TempC = Finite c, Condition = ()\<rparr>\<rparr>),
      st\<lparr>sent := sent st @ [\<lparr>Method = ''GET'',
          URL = ''http://api.weatherapi.com/v1/current.json?key=a91eb948a337442782b123810242601&q=Sao+Paulo'',
          Ctx = WithSpan ''getWeather'' (Extract ctx r), Injected = None\<rparr>]\<rparr>)"
  by (simp add: getWeather_def network_def ok_def weather_at_def run_simps
      decode_simps Weather_fields_def Location_fields_def Current_fields_def zero_Weather_def
      QueryEscape_def shouldEscape_def)

section \<open>The two lookups of the resolver, step by step\<close>

lemma rw_respond: "rw (respond st msg code) = http_Error (rw st) msg code"
  by (simp add: respond_def)

lemma getViaCep_unfold:
  "getViaCep E (WithSpan ''cityWeatherHandler'' (Extract Inbound r)) (Query_Get r ''zipcode'') r st =
     (case url_Parse E (URL (viacep_request r)) of
        Some err \<Rightarrow> (None, respond st [Str ''Failed to create request (viacep): '', ErrorText err] 500)
      | None \<Rightarrow>
          (let st1 = st\<lparr>sent := sent st @ [viacep_request r]\<rparr>
           in case RoundTrip E (viacep_request r) of
                Inl err \<Rightarrow>
                  (None, respond st1 [Str ''Failed to make HTTP request (viacep): '', ErrorText err] 500)
              | Inr res \<Rightarrow>
                  if StatusCode res \<noteq> 200 then (None, respond st1 [Str ''Invalid zipcode''] 422)
                  else
                    (case Body res of
                       Inl err \<Rightarrow>
                         (None, respond st1 [Str ''Failed to read response body: '', ErrorText err] 500)
                     | Inr bodyBytes \<Rightarrow>
                         (case Unmarshal ''ViaCepError'' ViaCepError_fields bodyBytes zero_ViaCepError of
                            Inl err \<Rightarrow>
                              (None, respond st1 [Str ''Failed to decode response (viacep): '', ErrorText err] 500)
                          | Inr viaCepErrorResponse \<Rightarrow>
                              if Erro viaCepErrorResponse
                              then (None, respond st1 [Str ''Cannot find zipcode''] 404)
                              else
                                (case Unmarshal ''ViaCep'' ViaCep_fields bodyBytes zero_ViaCep of
                                   Inl err \<Rightarrow>
                                     (None, respond st1 [Str ''Failed to decode response (viacep): '', ErrorText err] 500)
                                 | Inr viaCepResponse \<Rightarrow>
                                     if Localidade viaCepResponse = []
                                     then (None, respond st1 [Str ''Invalid zipcode''] 422)
                                     else (Some viaCepResponse, st1))))))"
  by (simp add: getViaCep_def viacep_request_def NewRequestWithContext_def Do_def io_ReadAll_def Let_def
      split: option.split sum.split)

lemma getWeather_unfold:
  "getWeather E (WithSpan ''cityWeatherHandler'' (Extract Inbound r)) cityName r st =
     (case url_Parse E (URL (weather_request r cityName)) of
        Some err \<Rightarrow> (None, respond st [Str ''Failed to create request (weather): '', ErrorText err] 500)
      | None \<Rightarrow>
          (let st1 = st\<lparr>sent := sent st @ [weather_request r cityName]\<rparr>
           in case RoundTrip E (weather_request r cityName) of
                Inl err \<Rightarrow>
                  (None, respond st1 [Str ''Failed to make HTTP request (weather): '', ErrorText err] 500)
              | Inr res \<Rightarrow>
                  if StatusCode res \<noteq> 200 then (None, respond st1 [Str ''Invalid zipcode''] 422)
                  else
                    (case Decode ''Weather'' Weather_fields (Body res) zero_Weather of
                       Inl err \<Rightarrow>
                         (None, respond st1 [Str ''Failed to decode response (weather): '', ErrorText err] 500)
                     | Inr response \<Rightarrow> (Some response, st1))))"
  by (simp add: getWeather_def weather_request_def NewRequestWithContext_def Do_def Let_def
      split: option.split sum.split)

text \<open>A helper that returns nil has written one error response; one that returns a
  result has written nothing. Either way it has sent at most one request.\<close>

lemma error_exI:
  assumes "code \<in> S" and "\<forall>p \<in> set msg. \<forall>j. p \<noteq> Encoded j"
  shows "\<exists>m c. http_Error w msg code = http_Error w m c \<and> c \<in> S
           \<and> (\<forall>p \<in> set m. \<forall>j. p \<noteq> Encoded j)"
  using assms by blast

lemma getViaCep_nil:
  assumes "getViaCep E ctx zipCode r st = (None, st')"
  shows "\<exists>msg code. rw st' = http_Error (rw st) msg code \<and> code \<in> {404, 422, 500}
           \<and> (\<forall>p \<in> set msg. \<forall>j. p \<noteq> Encoded j)"
  using assms
  by (auto simp add: getViaCep_def NewRequestWithContext_def Do_def io_ReadAll_def Let_def rw_respond
      simp del: insert_iff split: option.splits sum.splits if_splits intro!: error_exI)

lemma getViaCep_result:
  assumes "getViaCep E ctx zipCode r st = (Some v, st')"
  shows "rw st' = rw st \<and> Localidade v \<noteq> []"
  using assms
  by (auto simp add: getViaCep_def NewRequestWithContext_def Do_def io_ReadAll_def Let_def respond_def
      split: option.splits sum.splits if_splits)

lemma getWeather_nil:
  assumes "getWeather E ctx cityName r st = (None, st')"
  shows "\<exists>msg code. rw st' = http_Error (rw st) msg code \<and> code \<in> {422, 500}
           \<and> (\<forall>p \<in> set msg. \<forall>j. p \<noteq> Encoded j)"
  using assms
  by (auto simp add: getWeather_def NewRequestWithContext_def Do_def Let_def rw_respond
      simp del: insert_iff split: option.splits sum.splits if_splits intro!: error_exI)

lemma getWeather_result:
  assumes "getWeather E ctx cityName r st = (Some wr, st')"
  shows "rw st' = rw st"
  using assms
  by (auto simp add: getWeather_def NewRequestWithContext_def Do_def Let_def respond_def
      split: option.splits sum.splits if_splits)

subsection \<open>The gateway, step by step\<close>

lemma zipcodeHandler_unfold:
  "zipcodeHandler E g st =
     (case Decode ''Message'' Message_fields (Payload_in g) zero_Message of
        Inl err \<Rightarrow> Completed (respond st [ErrorText err] 400)
      | Inr msg \<Rightarrow>
          if \<not> zipCodeRegex_MatchString (ZipCode msg)
          then Completed (respond st [Str ''Invalid zipcode''] 422)
          else
            (case url_Parse E (URL (resolver_request E g (ZipCode msg))) of
               Some err \<Rightarrow> Completed (respond st [ErrorText err] 500)
             | None \<Rightarrow>
                 (let st1 = st\<lparr>sent := sent st @ [resolver_request E g (ZipCode msg)]\<rparr>
                  in case RoundTrip E (resolver_request E g (ZipCode msg)) of
                       Inl err \<Rightarrow> Completed (respond st1 [ErrorText err] 500)
                     | Inr resp \<Rightarrow>
                         if StatusCode resp \<noteq> 200 then
                           (case Body resp of
                              Inl err \<Rightarrow> Completed (respond st1 [Str ''Failed to read response body''] 500)
                            | Inr body \<Rightarrow>
                                if wroteHeader (rw st) \<or> checkWriteHeaderCode (StatusCode resp)
                                then Completed (respond st1 [Str (bytes body)] (StatusCode resp))
                                else Panicked ''invalid WriteHeader code'' st1)
                         else
                           (case Decode ''TemperatureWithCity'' TemperatureWithCity_fields (Body resp)
                                   zero_TemperatureWithCity of
                              Inl err \<Rightarrow> Completed (respond st1 [ErrorText err] 500)
                            | Inr cityWeatherResponse \<Rightarrow>
                                Completed (st1\<lparr>rw := Encode cityWeatherResponse
                                  (WriteHeader 200
                                    (Header_Set ''Content-Type'' ''application/json'' (rw st)))\<rparr>)))))"
  by (simp add: zipcodeHandler_def makeHTTPRequestWithPropagation_def resolver_request_def
      NewRequestWithContext_def Do_def io_ReadAll_def Let_def
      split: option.split sum.split)

lemma status_initial [simp]: "\<not> wroteHeader (rw initial)" "written (rw initial) = []" "sent initial = []"
  by (simp_all add: initial_def NewResponseWriter_def)

subsection \<open>The requests a run of the resolver sends\<close>

lemma getViaCep_sent:
  "sent (snd (getViaCep E (WithSpan ''cityWeatherHandler'' (Extract Inbound r))
                (Query_Get r ''zipcode'') r st)) =
     (if url_Parse E (URL (viacep_request r)) = None then sent st @ [viacep_request r] else sent st)"
  by (simp add: getViaCep_unfold Let_def split: option.split sum.split)

lemma getWeather_sent:
  "sent (snd (getWeather E (WithSpan ''cityWeatherHandler'' (Extract Inbound r)) cityName r st)) =
     (if url_Parse E (URL (weather_request r cityName)) = None
      then sent st @ [weather_request r cityName] else sent st)"
  by (simp add: getWeather_unfold Let_def split: option.split sum.split)

lemma cityWeatherHandler_sent:
  "sent (cityWeatherHandler E r initial) = []
   \<or> sent (cityWeatherHandler E r initial) = [viacep_request r]
   \<or> (\<exists>cityName. sent (cityWeatherHandler E r initial) = [viacep_request r, weather_request r cityName])"
proof (cases "Query_Get r ''zipcode'' = []")
  case True
  then show ?thesis by (simp add: cityWeatherHandler_missing)
next
  case False
  let ?ctx = "WithSpan ''cityWeatherHandler'' (Extract Inbound r)"
  obtain res st2 where v: "getViaCep E ?ctx (Query_Get r ''zipcode'') r initial = (res, st2)"
    by (cases "getViaCep E ?ctx (Query_Get r ''zipcode'') r initial")
  from getViaCep_sent [of E r initial] v
  have s2: "sent st2 = [] \<or> sent st2 = [viacep_request r]"
    by (simp split: if_splits)
  show ?thesis
  proof (cases res)
    case None
    with v s2 show ?thesis by (auto simp add: cityWeatherHandler_present [OF False])
  next
    case (Some viacepReturn)
    have "sent st2 = [viacep_request r]"
      using v Some by (auto simp add: getViaCep_unfold Let_def split: option.splits sum.splits if_splits)
    moreover obtain res3 st3 where w: "getWeather E ?ctx (Localidade viacepReturn) r st2 = (res3, st3)"
      by (cases "getWeather E ?ctx (Localidade viacepReturn) r st2")
    moreover from getWeather_sent [of E r "Localidade viacepReturn" st2] w
    have "sent st3 = sent st2 \<or> sent st3 = sent st2 @ [weather_request r (Localidade viacepReturn)]"
      by (simp split: if_splits)
    ultimately show ?thesis
      using v Some by (cases res3) (auto simp add: cityWeatherHandler_present [OF False])
  qed
qed

lemma cityWeatherHandler_first_request:
  assumes "Query_Get r ''zipcode'' \<noteq> []" and "url_Parse E (URL (viacep_request r)) = None"
  shows "take 1 (sent (cityWeatherHandler E r initial)) = [viacep_request r]"
proof -
  let ?ctx = "WithSpan ''cityWeatherHandler'' (Extract Inbound r)"
  obtain res st2 where v: "getViaCep E ?ctx (Query_Get r ''zipcode'') r initial = (res, st2)"
    by (cases "getViaCep E ?ctx (Query_Get r ''zipcode'') r initial")
  from getViaCep_sent [of E r initial] v assms(2)
  have s2: "sent st2 = [viacep_request r]" by simp
  show ?thesis
  proof (cases res)
    case None
    with v s2 show ?thesis by (simp add: cityWeatherHandler_present [OF assms(1)])
  next
    case (Some viacepReturn)
    obtain res3 st3 where w: "getWeather E ?ctx (Localidade viacepReturn) r st2 = (res3, st3)"
      by (cases "getWeather E ?ctx (Localidade viacepReturn) r st2")
    from getWeather_sent [of E r "Localidade viacepReturn" st2] w
    have "sent st3 = sent st2 \<or> sent st3 = sent st2 @ [weather_request r (Localidade viacepReturn)]"
      by (simp split: if_splits)
    with s2 v Some w show ?thesis
      by (cases res3) (auto simp add: cityWeatherHandler_present [OF assms(1)])
  qed
qed

subsection \<open>Encoding the report and decoding it again\<close>

lemma written_http_Error [simp]:
  "\<not> wroteHeader w \<Longrightarrow> bodyAllowedForStatus code \<Longrightarrow>
     written (http_Error w msg code) = written w @ [msg @ [Str newline] ]"
  by (auto simp add: http_Error_def Write_def WriteHeader_def Header_Set_def Let_def
      bodyAllowedForStatus_def)

lemma written_Encode:
  "(wroteHeader w \<longrightarrow> bodyAllowedForStatus (status w)) \<Longrightarrow>
     written (Encode t w) =
       (case marshal_TemperatureWithCity t of
          Inl err \<Rightarrow> written w
        | Inr j \<Rightarrow> written w @ [ [Encoded j, Str newline] ])"
  by (auto simp add: Encode_def Write_def WriteHeader_def Let_def split: sum.split)

lemma marshal_Inr:
  assumes "marshal_TemperatureWithCity t = Inr j"
  shows "\<exists>c f k. t = \<lparr>Celsius = Finite c, Fahrenheit = Finite f, Kelvin = Finite k, CityName = CityName t\<rparr>
           \<and> j = JObject [(''temp_C'', JNumber (FormatFloat c)), (''temp_F'', JNumber (FormatFloat f)),
                           (''temp_K'', JNumber (FormatFloat k)), (''city'', JString (CityName t))]"
proof -
  obtain c where c: "Celsius t = Finite c"
    using assms by (cases "Celsius t") (simp_all add: marshal_TemperatureWithCity_def)
  obtain f where f: "Fahrenheit t = Finite f"
    using assms c by (cases "Fahrenheit t") (simp_all add: marshal_TemperatureWithCity_def)
  obtain k where k: "Kelvin t = Finite k"
    using assms c f by (cases "Kelvin t") (simp_all add: marshal_TemperatureWithCity_def)
  have "t = \<lparr>Celsius = Finite c, Fahrenheit = Finite f, Kelvin = Finite k, CityName = CityName t\<rparr>"
    using c f k by (cases t) simp
  moreover have "j = JObject [(''temp_C'', JNumber (FormatFloat c)), (''temp_F'', JNumber (FormatFloat f)),
                           (''temp_K'', JNumber (FormatFloat k)), (''city'', JString (CityName t))]"
    using assms c f k by (simp add: marshal_TemperatureWithCity_def)
  ultimately show ?thesis by blast
qed

text \<open>Decoding what was encoded gives the struct back.\<close>

lemma unmarshal_marshal:
  assumes "marshal_TemperatureWithCity t = Inr j"
  shows "unmarshal ''TemperatureWithCity'' TemperatureWithCity_fields j zero_TemperatureWithCity = Inr t"
proof -
  from marshal_Inr [OF assms] obtain c f k where
    t: "t = \<lparr>Celsius = Finite c, Fahrenheit = Finite f, Kelvin = Finite k, CityName = CityName t\<rparr>"
    and j: "j = JObject [(''temp_C'', JNumber (FormatFloat c)), (''temp_F'', JNumber (FormatFloat f)),
                           (''temp_K'', JNumber (FormatFloat k)), (''city'', JString (CityName t))]"
    by blast
  have "unmarshal ''TemperatureWithCity'' TemperatureWithCity_fields j zero_TemperatureWithCity
      = Inr \<lparr>Celsius = Finite c, Fahrenheit = Finite f, Kelvin = Finite k, CityName = CityName t\<rparr>"
    unfolding j
    by (simp add: unmarshal_def find_field_def TemperatureWithCity_fields_def float64_field_def
        string_field_def zero_TemperatureWithCity_def FormatFloat_def)
  with t show ?thesis by simp
qed

lemma marshal_inject:
  assumes "marshal_TemperatureWithCity t = Inr j" and "marshal_TemperatureWithCity t' = Inr j"
  shows "t' = t"
  using unmarshal_marshal [OF assms(1)] unmarshal_marshal [OF assms(2)] by simp

subsection \<open>How a run of the resolver ends\<close>

lemma rw_initial [simp]: "rw initial = NewResponseWriter"
  by (simp add: initial_def)

lemma NewResponseWriter_fresh [simp]:
  "\<not> wroteHeader NewResponseWriter" "written NewResponseWriter = []"
  by (simp_all add: NewResponseWriter_def)

text \<open>
  Every run of the resolver's handler ends in one of two ways: one error response
  written by \<open>validParams\<close> or by the lookup that failed, or both lookups done and the
  report handed to \<open>Encode\<close>.
\<close>

lemma cityWeatherHandler_outcome:
  fixes E r
  defines "ctx \<equiv> WithSpan ''cityWeatherHandler'' (Extract Inbound r)"
  defines "both \<equiv> \<lambda>v wr. Query_Get r ''zipcode'' \<noteq> [] \<and>
     (\<exists>st2 st3. getViaCep E ctx (Query_Get r ''zipcode'') r initial = (Some v, st2)
        \<and> getWeather E ctx (Localidade v) r st2 = (Some wr, st3))"
  shows "((\<nexists>v wr. both v wr) \<and>
          (\<exists>msg code. rw (cityWeatherHandler E r initial) = http_Error NewResponseWriter msg code
             \<and> code \<in> {400, 404, 422, 500} \<and> (\<forall>p \<in> set msg. \<forall>j. p \<noteq> Encoded j)))
       \<or> (\<exists>v wr. both v wr \<and>
            rw (cityWeatherHandler E r initial)
              = Encode (temperatureWithCity wr (Localidade v))
                  (Header_Set ''Content-Type'' ''application/json'' NewResponseWriter))"
proof (cases "Query_Get r ''zipcode'' = []")
  case True
  then have eq: "rw (cityWeatherHandler E r initial)
      = http_Error NewResponseWriter [Str ''Missing 'zipcode' parameter''] 400"
    by (simp add: cityWeatherHandler_missing rw_respond)
  have "\<exists>msg code. rw (cityWeatherHandler E r initial) = http_Error NewResponseWriter msg code
      \<and> code \<in> {400, 404, 422, 500} \<and> (\<forall>p \<in> set msg. \<forall>j. p \<noteq> Encoded j)"
    unfolding eq by (rule error_exI) simp_all
  moreover have "\<nexists>v wr. both v wr" using True by (simp add: both_def)
  ultimately show ?thesis by blast
next
  case zip: False
  obtain res st2 where v: "getViaCep E ctx (Query_Get r ''zipcode'') r initial = (res, st2)"
    by (cases "getViaCep E ctx (Query_Get r ''zipcode'') r initial")
  show ?thesis
  proof (cases res)
    case None
    from getViaCep_nil [OF v [unfolded None] ] obtain msg code where
      "rw st2 = http_Error NewResponseWriter msg code" "code \<in> {404, 422, 500}"
      "\<forall>p \<in> set msg. \<forall>j. p \<noteq> Encoded j"
      by auto
    moreover have "cityWeatherHandler E r initial = st2"
      using v None by (simp add: cityWeatherHandler_present [OF zip] ctx_def)
    moreover have "\<nexists>v wr. both v wr" using v None by (simp add: both_def)
    ultimately show ?thesis by (intro disjI1 conjI) auto
  next
    case (Some viacepReturn)
    from getViaCep_result [OF v [unfolded Some] ] have fresh: "rw st2 = NewResponseWriter"
      by simp
    obtain res3 st3 where w: "getWeather E ctx (Localidade viacepReturn) r st2 = (res3, st3)"
      by (cases "getWeather E ctx (Localidade viacepReturn) r st2")
    show ?thesis
    proof (cases res3)
      case None
      from getWeather_nil [OF w [unfolded None] ] fresh obtain msg code where
        "rw st3 = http_Error NewResponseWriter msg code" "code \<in> {422, 500}"
        "\<forall>p \<in> set msg. \<forall>j. p \<noteq> Encoded j"
        by auto
      moreover have "cityWeatherHandler E r initial = st3"
        using v Some w None by (simp add: cityWeatherHandler_present [OF zip] ctx_def)
      moreover have "\<nexists>v wr. both v wr" using v Some w None by (auto simp add: both_def)
      ultimately show ?thesis by (intro disjI1 conjI) auto
    next
      case wr: (Some weatherReturn)
      from getWeather_result [OF w [unfolded wr] ] fresh have "rw st3 = NewResponseWriter"
        by simp
      then have "rw (cityWeatherHandler E r initial)
          = Encode (temperatureWithCity weatherReturn (Localidade viacepReturn))
              (Header_Set ''Content-Type'' ''application/json'' NewResponseWriter)"
        using v Some w wr by (simp add: cityWeatherHandler_present [OF zip] ctx_def)
      moreover have "both viacepReturn weatherReturn"
        using zip v Some w wr by (auto simp add: both_def)
      ultimately show ?thesis by blast
    qed
  qed
qed

lemma lookups_Some_iff:
  "lookups E r = Some (v, wr) \<longleftrightarrow>
     Query_Get r ''zipcode'' \<noteq> [] \<and>
     (\<exists>st2 st3. getViaCep E (WithSpan ''cityWeatherHandler'' (Extract Inbound r))
                   (Query_Get r ''zipcode'') r initial = (Some v, st2)
        \<and> getWeather E (WithSpan ''cityWeatherHandler'' (Extract Inbound r))
             (Localidade v) r st2 = (Some wr, st3))"
  by (auto simp add: lookups_def split: prod.splits option.splits)

lemma cityWeatherHandler_written:
  "(lookups E r = None \<and>
      (\<exists>msg. written (rw (cityWeatherHandler E r initial)) = [msg @ [Str newline] ]
         \<and> (\<forall>p \<in> set msg. \<forall>j. p \<noteq> Encoded j)))
   \<or> (\<exists>v wr. lookups E r = Some (v, wr) \<and>
         written (rw (cityWeatherHandler E r initial)) =
           (case marshal_TemperatureWithCity (temperatureWithCity wr (Localidade v)) of
              Inl err \<Rightarrow> []
            | Inr j \<Rightarrow> [ [Encoded j, Str newline] ]))"
proof -
  from cityWeatherHandler_outcome [where E = E and r = r, folded lookups_Some_iff]
  consider (error) msg code where "\<nexists>v wr. lookups E r = Some (v, wr)"
      "rw (cityWeatherHandler E r initial) = http_Error NewResponseWriter msg code"
      "\<forall>p \<in> set msg. \<forall>j. p \<noteq> Encoded j" "code \<in> {400, 404, 422, 500}"
    | (encode) v wr where "lookups E r = Some (v, wr)"
      "rw (cityWeatherHandler E r initial)
         = Encode (temperatureWithCity wr (Localidade v))
             (Header_Set ''Content-Type'' ''application/json'' NewResponseWriter)"
    by blast
  then show ?thesis
  proof cases
    case error
    from error(1) have "lookups E r = None" by (cases "lookups E r") auto
    moreover from error(4) have "bodyAllowedForStatus code"
      by auto
    then have "written (rw (cityWeatherHandler E r initial)) = [msg @ [Str newline] ]"
      by (simp add: error(2))
    ultimately show ?thesis using error(3) by blast
  next
    case encode
    have "written (rw (cityWeatherHandler E r initial)) =
           (case marshal_TemperatureWithCity (temperatureWithCity wr (Localidade v)) of
              Inl err \<Rightarrow> []
            | Inr j \<Rightarrow> [ [Encoded j, Str newline] ])"
      by (simp add: encode(2) written_Encode Header_Set_def NewResponseWriter_def split: sum.split)
    with encode(1) show ?thesis by blast
  qed
qed

subsection \<open>Objects that fit the report\<close>


text \<open>
  Storing the members of an object that fits: no error is kept, and every field ends
  with what the object says about it, or with the value it had when the object says
  nothing.
\<close>

lemma last_member_Nil [simp]: "last_member [] name = JNull"
  by (simp add: last_member_def)






section \<open>Facts about the concrete networks\<close>

lemma viacep_request_lookup:
  "viacep_request (lookup_request z) = \<lparr>Method = ''GET'', URL = ''http://viacep.com.br/ws/'' @ z @ ''/json/'',
     Ctx = WithSpan ''getViaCep'' (WithSpan ''cityWeatherHandler'' Inbound), Injected = None\<rparr>"
  by (simp add: viacep_request_def example_simps)

lemma RoundTrip_viacep:
  "RoundTrip (network v w x) (viacep_request (lookup_request z)) = v"
  by (simp add: viacep_request_lookup network_def)

lemma url_Parse_network: "url_Parse (network v w x) u = None"
  by (simp add: network_def)

lemma Unmarshal_erro:
  "Unmarshal ''ViaCepError'' ViaCepError_fields viacep_erro zero_ViaCepError = Inr \<lparr>Erro = True\<rparr>"
  by (simp add: decode_simps viacep_erro_def ViaCepError_fields_def zero_ViaCepError_def)

lemma weather_request_lookup:
  "weather_request (lookup_request z) ''Sao Paulo'' = \<lparr>Method = ''GET'',
     URL = ''http://api.weatherapi.com/v1/current.json?key=a91eb948a337442782b123810242601&q=Sao+Paulo'',
     Ctx = WithSpan ''getWeather'' (WithSpan ''cityWeatherHandler'' Inbound), Injected = None\<rparr>"
  by (simp add: weather_request_def example_simps QueryEscape_def shouldEscape_def)

lemma RoundTrip_weather:
  "RoundTrip (network v w x) (weather_request (lookup_request z) ''Sao Paulo'') = w"
  by (simp add: weather_request_lookup network_def)

lemma getViaCep_found_lookup:
  "getViaCep (network (ok viacep_found) w x) (WithSpan ''cityWeatherHandler'' (Extract Inbound (lookup_request ''01001000'')))
       (Query_Get (lookup_request ''01001000'') ''zipcode'') (lookup_request ''01001000'') initial =
     (Some (zero_ViaCep\<lparr>Cep := ''01001-000'', Localidade := ''Sao Paulo'', Uf := ''SP''\<rparr>),
      initial\<lparr>sent := [viacep_request (lookup_request ''01001000'')]\<rparr>)"
proof -
  have "Query_Get (lookup_request ''01001000'') ''zipcode'' = ''01001000''"
    by (simp add: example_simps)
  then show ?thesis
    by (simp add: getViaCep_found viacep_request_def)
qed

lemma Decode_cep_body:
  "Decode ''Message'' Message_fields (Payload_in (post_request (cep_body z))) zero_Message
     = Inr \<lparr>ZipCode = z\<rparr>"
  by (simp add: decode_simps post_request_def cep_body_def Message_fields_def zero_Message_def)

lemma match_01001000: "zipCodeRegex_MatchString ''01001000''"
  by (simp add: zipCodeRegex_MatchString_def isDigit_def)

lemma RoundTrip_resolver:
  "RoundTrip (network v w x) (resolver_request (network v w x) g ''01001000'') = x"
  by (simp add: resolver_request_def network_def)

lemma header_respond:
  "header (rw (respond st msg code)) ''Content-Type'' = Some ''text/plain; charset=utf-8''"
  by (simp add: respond_def http_Error_def Write_def WriteHeader_def Header_Set_def Let_def)

subsection \<open>Objects without the postal-code field\<close>

lemma find_field_Message:
  "foldName k \<noteq> ''CEP'' \<Longrightarrow> find_field k Message_fields = None"
  by (auto simp add: find_field_def Message_fields_def string_field_def upper_def)

lemma object_Message_lacks:
  "lacks kvs ''cep'' \<Longrightarrow> object Message_fields kvs s e = (s, e)"
  by (induction kvs arbitrary: s e) (auto simp add: lacks_def upper_def find_field_Message)

subsection \<open>The run at 25 degrees and the run that overflows\<close>

lemma lookups_found_25:
  "lookups (network (ok viacep_found) (ok (weather_at (Number (Some c) i))) x) (lookup_request ''01001000'')
     = Some (zero_ViaCep\<lparr>Cep := ''01001-000'', Localidade := ''Sao Paulo'', Uf := ''SP''\<rparr>,
             zero_Weather\<lparr>Location := (Location zero_Weather)\<lparr>Name := ''Sao Paulo''\<rparr>,
               Current := \<lparr>TempC = Finite c, Condition = ()\<rparr>\<rparr>)"
proof -
  have zip: "Query_Get (lookup_request ''01001000'') ''zipcode'' \<noteq> []"
    by (simp add: example_simps)
  show ?thesis
    unfolding lookups_def getViaCep_found_lookup
    by (simp add: zip getWeather_at)
qed

lemma temperatureWithCity_at:
  "TempC (Current wr) = c \<Longrightarrow>
     temperatureWithCity wr city = \<lparr>Celsius = c,
       Fahrenheit = f64_add (f64_div (f64_mul c (Finite 9)) (Finite 5)) (Finite 32),
       Kelvin = f64_add c (f64_const (27315 / 100)), CityName = city\<rparr>"
  by (simp add: temperatureWithCity_def)

lemma TempC_weather_at:
  "TempC (Current (zero_Weather\<lparr>Location := l, Current := \<lparr>TempC = c, Condition = ()\<rparr>\<rparr>)) = c"
  by simp

lemma marshal_25:
  "marshal_TemperatureWithCity (temperatureWithCity
      (zero_Weather\<lparr>Location := (Location zero_Weather)\<lparr>Name := ''Sao Paulo''\<rparr>,
         Current := \<lparr>TempC = Finite 25, Condition = ()\<rparr>\<rparr>) ''Sao Paulo'') = Inr report_25"
  unfolding temperatureWithCity_at [OF TempC_weather_at] fahrenheit_25 kelvin_25 const_298_15
  by (simp add: marshal_TemperatureWithCity_def report_25_def)

lemma fahrenheit_overflow:
  "f64_add (f64_div (f64_mul (Finite huge) (Finite 9)) (Finite 5)) (Finite 32) = PosInf"
  unfolding f64_mul.simps huge_def round_f64_overflow by simp

subsection \<open>The payload of the resolver\<close>

lemma cityWeatherHandler_payload:
  assumes "written (rw (cityWeatherHandler E r initial)) = [ [Encoded j, Str newline] ]"
  shows "\<exists>v wr. lookups E r = Some (v, wr)
           \<and> marshal_TemperatureWithCity (temperatureWithCity wr (Localidade v)) = Inr j"
  using cityWeatherHandler_written [of E r]
proof (elim disjE conjE exE)
  fix msg
  assume "written (rw (cityWeatherHandler E r initial)) = [msg @ [Str newline] ]"
    and "\<forall>p \<in> set msg. \<forall>j. p \<noteq> Encoded j"
  with assms have "msg = [Encoded j]" and "\<forall>p \<in> set msg. \<forall>j. p \<noteq> Encoded j" by simp_all
  then show ?thesis by simp
next
  fix v wr
  assume l: "lookups E r = Some (v, wr)"
    and "written (rw (cityWeatherHandler E r initial)) =
           (case marshal_TemperatureWithCity (temperatureWithCity wr (Localidade v)) of
              Inl err \<Rightarrow> []
            | Inr j \<Rightarrow> [ [Encoded j, Str newline] ])"
  with assms have "marshal_TemperatureWithCity (temperatureWithCity wr (Localidade v)) = Inr j"
    by (simp split: sum.splits)
  with l show ?thesis by blast
qed

lemma status_Encode:
  "wroteHeader w \<Longrightarrow> status (Encode t w) = status w"
  by (simp add: Encode_def Write_def Let_def split: sum.split)

subsection \<open>Contexts of the requests sent\<close>

lemma root_Extract [simp]: "root (Extract c r) = root c"
  by (simp add: Extract_def split: option.split)

lemma timeout_Extract [simp]: "timeout (Extract c r) = timeout c"
  by (simp add: Extract_def split: option.split)

lemma Done_Extract [simp]: "Done cancelled elapsed (Extract c r) = Done cancelled elapsed c"
  by (simp add: Extract_def split: option.split)

lemma zipcodeHandler_sent:
  "sent (state_of (zipcodeHandler E g initial)) = []
   \<or> (\<exists>zipCode. sent (state_of (zipcodeHandler E g initial)) = [resolver_request E g zipCode])"
  by (auto simp add: zipcodeHandler_unfold Let_def split: sum.split option.split)

lemma sent_resolver_25:
  "sent (cityWeatherHandler
      (network (ok viacep_found) (ok (weather_at (Number (Some 25) (Some 25)))) unreachable)
      (lookup_request ''01001000'') initial)
     = [viacep_request (lookup_request ''01001000''),
        weather_request (lookup_request ''01001000'') ''Sao Paulo'']"
proof -
  have zip: "Query_Get (lookup_request ''01001000'') ''zipcode'' \<noteq> []"
    by (simp add: example_simps)
  have ext: "Extract c (lookup_request z) = c" for c z
    by (simp add: Extract_def lookup_request_def)
  show ?thesis
    unfolding cityWeatherHandler_present [OF zip] getViaCep_found_lookup
    by (simp add: getWeather_at weather_request_lookup ext)
qed

lemma sent_gateway_25:
  \<open>sent (state_of (zipcodeHandler
       (network unreachable unreachable
          (ok (Payload ''{"temp_C":25,"temp_F":77,"temp_K":298.15,"city":"Sao Paulo"}'' (Inr report_25))))
       (post_request (cep_body ''01001000'')) initial))
     = [resolver_request (network unreachable unreachable
          (ok (Payload ''{"temp_C":25,"temp_F":77,"temp_K":298.15,"city":"Sao Paulo"}'' (Inr report_25))))
          (post_request (cep_body ''01001000'')) ''01001000'']\<close>
  by (simp add: zipcodeHandler_unfold Decode_cep_body match_01001000 url_Parse_network
      RoundTrip_resolver ok_def Let_def split: sum.split)

section \<open>A postal code that is not found\<close>

text \<open>
  C1. When the postal-lookup API answers 200 with a body whose not-found flag is set,
  the resolver responds 404; when the flag is not set and the locality is empty, it
  responds 422. In both cases the only request sent is the one to the postal-lookup
  API: the weather API is not called.
\<close>

theorem C1_postal_code_not_found:
  assumes zip: "Query_Get r ''zipcode'' \<noteq> []"
    and url: "url_Parse E (URL (viacep_request r)) = None"
    and net: "RoundTrip E (viacep_request r) = Inr res"
    and status: "StatusCode res = 200"
    and body: "Body res = Inr p"
    and flag: "Unmarshal ''ViaCepError'' ViaCepError_fields p zero_ViaCepError = Inr e"
    and notfound: "Erro e \<or> (\<exists>c. Unmarshal ''ViaCep'' ViaCep_fields p zero_ViaCep = Inr c \<and> Localidade c = [])"
  shows "status (rw (cityWeatherHandler E r initial)) = (if Erro e then 404 else 422)
       \<and> sent (cityWeatherHandler E r initial) = [viacep_request r]"
proof (cases "Erro e")
  case True
  then show ?thesis
    by (simp add: cityWeatherHandler_present [OF zip] getViaCep_unfold url net status body flag
        Let_def status_respond)
next
  case False
  with notfound obtain c where "Unmarshal ''ViaCep'' ViaCep_fields p zero_ViaCep = Inr c"
    and "Localidade c = []" by blast
  with False show ?thesis
    by (simp add: cityWeatherHandler_present [OF zip] getViaCep_unfold url net status body flag
        Let_def status_respond)
qed

theorem C1_postal_code_not_found_witness:
  "status (rw (cityWeatherHandler (network (ok viacep_erro) unreachable unreachable)
                 (lookup_request ''99999999'') initial)) = 404
   \<and> sent (cityWeatherHandler (network (ok viacep_erro) unreachable unreachable)
             (lookup_request ''99999999'') initial) = [viacep_request (lookup_request ''99999999'')]"
proof -
  have zip: "Query_Get (lookup_request ''99999999'') ''zipcode'' \<noteq> []"
    by (simp add: example_simps)
  have nf: "Erro \<lparr>Erro = True\<rparr> \<or>
      (\<exists>c. Unmarshal ''ViaCep'' ViaCep_fields viacep_erro zero_ViaCep = Inr c \<and> Localidade c = [])"
    by simp
  from C1_postal_code_not_found [OF zip url_Parse_network, of "ok viacep_erro" unreachable unreachable
      "\<lparr>StatusCode = 200, Body = Inr viacep_erro\<rparr>" viacep_erro, OF _ _ _ Unmarshal_erro nf]
  show ?thesis
    by (simp add: RoundTrip_viacep ok_def)
qed

text \<open>The specification asks for 422 when the flag is set; the resolver answers 404.\<close>

theorem C1_counterexample:
  "Unmarshal ''ViaCepError'' ViaCepError_fields viacep_erro zero_ViaCepError = Inr \<lparr>Erro = True\<rparr>
   \<and> status (rw (cityWeatherHandler (network (ok viacep_erro) unreachable unreachable)
                   (lookup_request ''99999999'') initial)) \<noteq> 422"
proof -
  have zip: "Query_Get (lookup_request ''99999999'') ''zipcode'' \<noteq> []"
    by (simp add: example_simps)
  have "status (rw (cityWeatherHandler (network (ok viacep_erro) unreachable unreachable)
                   (lookup_request ''99999999'') initial)) = 404"
    by (simp add: cityWeatherHandler_present [OF zip] getViaCep_unfold url_Parse_network
        RoundTrip_viacep ok_def Unmarshal_erro Let_def status_respond)
  with Unmarshal_erro show ?thesis by simp
qed

section \<open>Postal codes that are not eight digits\<close>

text \<open>
  C2. For a postal code that is not eight digits the gateway responds 422 and sends
  nothing to the resolver. The resolver does not check the format: only an empty
  \<open>zipcode\<close> parameter is rejected, with 400 and no outbound call. Any other string is
  put into the URL of the postal-lookup API: when that URL cannot be parsed (a control
  character in the string does that) the resolver responds 500 and sends nothing;
  otherwise the request is sent to the postal-lookup API, and the resolver responds
  422 when that API answers with a status other than 200.
\<close>

theorem C2_malformed_postal_code:
  assumes bad: "\<not> zipCodeRegex_MatchString z"
  shows "(Decode ''Message'' Message_fields (Payload_in g) zero_Message = Inr \<lparr>ZipCode = z\<rparr> \<longrightarrow>
           (\<exists>st. zipcodeHandler E g initial = Completed st \<and> status (rw st) = 422 \<and> sent st = []))
       \<and> (Query_Get r ''zipcode'' = z \<and> z = [] \<longrightarrow>
           status (rw (cityWeatherHandler E r initial)) = 400
           \<and> sent (cityWeatherHandler E r initial) = [])
       \<and> (Query_Get r ''zipcode'' = z \<and> z \<noteq> [] \<and> url_Parse E (URL (viacep_request r)) \<noteq> None \<longrightarrow>
           status (rw (cityWeatherHandler E r initial)) = 500
           \<and> sent (cityWeatherHandler E r initial) = [])
       \<and> (Query_Get r ''zipcode'' = z \<and> z \<noteq> [] \<and> url_Parse E (URL (viacep_request r)) = None \<longrightarrow>
           take 1 (sent (cityWeatherHandler E r initial)) = [viacep_request r]
           \<and> (\<forall>res. RoundTrip E (viacep_request r) = Inr res \<and> StatusCode res \<noteq> 200 \<longrightarrow>
                 status (rw (cityWeatherHandler E r initial)) = 422
                 \<and> sent (cityWeatherHandler E r initial) = [viacep_request r]))"
proof (intro conjI impI allI)
  assume "Decode ''Message'' Message_fields (Payload_in g) zero_Message = Inr \<lparr>ZipCode = z\<rparr>"
  then have "zipcodeHandler E g initial = Completed (respond initial [Str ''Invalid zipcode''] 422)"
    using bad by (simp add: zipcodeHandler_unfold)
  then show "\<exists>st. zipcodeHandler E g initial = Completed st \<and> status (rw st) = 422 \<and> sent st = []"
    by (simp add: status_respond)
next
  assume "Query_Get r ''zipcode'' = z \<and> z = []"
  then have "cityWeatherHandler E r initial = respond initial [Str ''Missing 'zipcode' parameter''] 400"
    by (simp add: cityWeatherHandler_missing)
  then show "status (rw (cityWeatherHandler E r initial)) = 400"
    and "sent (cityWeatherHandler E r initial) = []"
    by (simp_all add: status_respond)
next
  assume a: "Query_Get r ''zipcode'' = z \<and> z \<noteq> [] \<and> url_Parse E (URL (viacep_request r)) \<noteq> None"
  then have zip: "Query_Get r ''zipcode'' \<noteq> []" by simp
  from a obtain err where url: "url_Parse E (URL (viacep_request r)) = Some err" by auto
  have "cityWeatherHandler E r initial
      = respond initial [Str ''Failed to create request (viacep): '', ErrorText err] 500"
    by (simp add: cityWeatherHandler_present [OF zip] getViaCep_unfold Let_def url)
  then show "status (rw (cityWeatherHandler E r initial)) = 500"
    and "sent (cityWeatherHandler E r initial) = []"
    by (simp_all add: status_respond)
next
  assume a: "Query_Get r ''zipcode'' = z \<and> z \<noteq> [] \<and> url_Parse E (URL (viacep_request r)) = None"
  then have zip: "Query_Get r ''zipcode'' \<noteq> []" by simp
  with a show "take 1 (sent (cityWeatherHandler E r initial)) = [viacep_request r]"
    by (intro cityWeatherHandler_first_request) simp_all
next
  fix res
  assume a: "Query_Get r ''zipcode'' = z \<and> z \<noteq> [] \<and> url_Parse E (URL (viacep_request r)) = None"
    and b: "RoundTrip E (viacep_request r) = Inr res \<and> StatusCode res \<noteq> 200"
  then have zip: "Query_Get r ''zipcode'' \<noteq> []"
    and url: "url_Parse E (URL (viacep_request r)) = None"
    and net: "RoundTrip E (viacep_request r) = Inr res" and st: "StatusCode res \<noteq> 200"
    by simp_all
  have "cityWeatherHandler E r initial
      = respond (initial\<lparr>sent := [viacep_request r]\<rparr>) [Str ''Invalid zipcode''] 422"
    by (simp add: cityWeatherHandler_present [OF zip] getViaCep_unfold Let_def url net st)
  then show "status (rw (cityWeatherHandler E r initial)) = 422"
    and "sent (cityWeatherHandler E r initial) = [viacep_request r]"
    by (simp_all add: status_respond)
qed

theorem C2_malformed_postal_code_witness:
  "(\<exists>st. zipcodeHandler (network unreachable unreachable unreachable)
            (post_request (cep_body ''1234'')) initial = Completed st
         \<and> status (rw st) = 422 \<and> sent st = [])
   \<and> status (rw (cityWeatherHandler (network unreachable unreachable unreachable)
                   (lookup_request []) initial)) = 400
   \<and> sent (cityWeatherHandler (network unreachable unreachable unreachable)
             (lookup_request []) initial) = []
   \<and> status (rw (cityWeatherHandler
                   (control_characters_refused (network unreachable unreachable unreachable))
                   (lookup_request newline) initial)) = 500
   \<and> sent (cityWeatherHandler
             (control_characters_refused (network unreachable unreachable unreachable))
             (lookup_request newline) initial) = []
   \<and> take 1 (sent (cityWeatherHandler
                     (network (Inr \<lparr>StatusCode = 400, Body = Inr (Payload [] (Inl (Failure ''EOF'')))\<rparr>)
                        unreachable unreachable)
                     (lookup_request ''1234'') initial)) = [viacep_request (lookup_request ''1234'')]
   \<and> status (rw (cityWeatherHandler
                   (network (Inr \<lparr>StatusCode = 400, Body = Inr (Payload [] (Inl (Failure ''EOF'')))\<rparr>)
                      unreachable unreachable)
                   (lookup_request ''1234'') initial)) = 422"
proof -
  have bad: "\<not> zipCodeRegex_MatchString ''1234''" and empty: "\<not> zipCodeRegex_MatchString []"
    and control: "\<not> zipCodeRegex_MatchString newline"
    by (simp_all add: zipCodeRegex_MatchString_def newline_def)
  have dec: "Decode ''Message'' Message_fields (Payload_in (post_request (cep_body ''1234''))) zero_Message
      = Inr \<lparr>ZipCode = ''1234''\<rparr>"
    by (simp add: decode_simps post_request_def cep_body_def Message_fields_def zero_Message_def)
  have q: "Query_Get (lookup_request z) ''zipcode'' = z" for z
    by (simp add: example_simps)
  have refused: "url_Parse (control_characters_refused (network unreachable unreachable unreachable))
      (URL (viacep_request (lookup_request newline))) \<noteq> None"
    by (simp add: control_characters_refused_def stringContainsCTLByte_def control_bytes_def
        viacep_request_lookup newline_def)
  let ?E = "network (Inr \<lparr>StatusCode = 400, Body = Inr (Payload [] (Inl (Failure ''EOF'')))\<rparr>)
              unreachable unreachable"
  from C2_malformed_postal_code [OF bad, where g = "post_request (cep_body ''1234'')"
      and r = "lookup_request ''1234''" and E = ?E]
    C2_malformed_postal_code [OF bad, where g = "post_request (cep_body ''1234'')"
      and r = "lookup_request ''1234''" and E = "network unreachable unreachable unreachable"]
    C2_malformed_postal_code [OF empty, where g = "post_request (cep_body ''1234'')"
      and r = "lookup_request []" and E = "network unreachable unreachable unreachable"]
    C2_malformed_postal_code [OF control, where g = "post_request (cep_body ''1234'')"
      and r = "lookup_request newline"
      and E = "control_characters_refused (network unreachable unreachable unreachable)"]
  show ?thesis
    using refused by (simp add: dec q url_Parse_network RoundTrip_viacep newline_def)
qed

text \<open>The specification has the resolver reject a malformed code before any outbound
  call; for \<open>abc\<close> the request to the postal-lookup API is sent.\<close>

theorem C2_counterexample:
  "\<not> zipCodeRegex_MatchString ''abc''
   \<and> sent (cityWeatherHandler
             (network (Inr \<lparr>StatusCode = 400, Body = Inr (Payload [] (Inl (Failure ''EOF'')))\<rparr>)
                unreachable unreachable)
             (lookup_request ''abc'') initial) = [viacep_request (lookup_request ''abc'')]
   \<and> URL (viacep_request (lookup_request ''abc'')) = ''http://viacep.com.br/ws/abc/json/''"
proof -
  have zip: "Query_Get (lookup_request ''abc'') ''zipcode'' \<noteq> []"
    by (simp add: example_simps)
  have "sent (cityWeatherHandler
             (network (Inr \<lparr>StatusCode = 400, Body = Inr (Payload [] (Inl (Failure ''EOF'')))\<rparr>)
                unreachable unreachable)
             (lookup_request ''abc'') initial) = [viacep_request (lookup_request ''abc'')]"
    by (simp add: cityWeatherHandler_present [OF zip] getViaCep_unfold url_Parse_network
        RoundTrip_viacep Let_def)
  then show ?thesis
    by (simp add: zipCodeRegex_MatchString_def viacep_request_lookup)
qed

section \<open>A weather call that fails\<close>

text \<open>
  C3. Once the locality is known, a transport failure of the weather-API call makes
  the resolver respond 500, and an answer of the weather API with a status other
  than 200 makes it respond 422.
\<close>

theorem C3_weather_call_fails:
  assumes zip: "Query_Get r ''zipcode'' \<noteq> []"
    and viacep: "getViaCep E (WithSpan ''cityWeatherHandler'' (Extract Inbound r))
                   (Query_Get r ''zipcode'') r initial = (Some v, st2)"
    and url: "url_Parse E (URL (weather_request r (Localidade v))) = None"
  shows "(\<forall>err. RoundTrip E (weather_request r (Localidade v)) = Inl err \<longrightarrow>
            status (rw (cityWeatherHandler E r initial)) = 500)
       \<and> (\<forall>res. RoundTrip E (weather_request r (Localidade v)) = Inr res \<and> StatusCode res \<noteq> 200 \<longrightarrow>
            status (rw (cityWeatherHandler E r initial)) = 422)"
proof -
  have fresh: "\<not> wroteHeader (rw st2)"
    using getViaCep_result [OF viacep] by simp
  show ?thesis
    by (simp add: cityWeatherHandler_present [OF zip] viacep getWeather_unfold url Let_def
        status_respond fresh)
qed

theorem C3_weather_call_fails_witness:
  "status (rw (cityWeatherHandler (network (ok viacep_found) unreachable unreachable)
                 (lookup_request ''01001000'') initial)) = 500
   \<and> status (rw (cityWeatherHandler
                   (network (ok viacep_found)
                      (Inr \<lparr>StatusCode = 503, Body = Inr (Payload [] (Inl (Failure ''EOF'')))\<rparr>)
                      unreachable)
                   (lookup_request ''01001000'') initial)) = 422"
proof -
  have zip: "Query_Get (lookup_request ''01001000'') ''zipcode'' \<noteq> []"
    by (simp add: example_simps)
  have city: "Localidade (zero_ViaCep\<lparr>Cep := ''01001-000'', Localidade := ''Sao Paulo'', Uf := ''SP''\<rparr>)
      = ''Sao Paulo''"
    by simp
  from C3_weather_call_fails [OF zip getViaCep_found_lookup url_Parse_network]
    C3_weather_call_fails [OF zip getViaCep_found_lookup url_Parse_network,
      where w1 = "Inr \<lparr>StatusCode = 503, Body = Inr (Payload [] (Inl (Failure ''EOF'')))\<rparr>"]
  show ?thesis
    unfolding city RoundTrip_weather unreachable_def by simp
qed

text \<open>The specification asks for a 5xx answer when the weather API returns a
  non-OK status; for a 503 from the weather API the resolver answers 422.\<close>

theorem C3_counterexample:
  "status (rw (cityWeatherHandler
                 (network (ok viacep_found)
                    (Inr \<lparr>StatusCode = 503, Body = Inr (Payload [] (Inl (Failure ''EOF'')))\<rparr>)
                    unreachable)
                 (lookup_request ''01001000'') initial)) = 422
   \<and> \<not> (500 \<le> status (rw (cityWeatherHandler
                 (network (ok viacep_found)
                    (Inr \<lparr>StatusCode = 503, Body = Inr (Payload [] (Inl (Failure ''EOF'')))\<rparr>)
                    unreachable)
                 (lookup_request ''01001000'') initial)))"
proof -
  have zip: "Query_Get (lookup_request ''01001000'') ''zipcode'' \<noteq> []"
    by (simp add: example_simps)
  have city: "Localidade (zero_ViaCep\<lparr>Cep := ''01001-000'', Localidade := ''Sao Paulo'', Uf := ''SP''\<rparr>)
      = ''Sao Paulo''"
    by simp
  have "status (rw (cityWeatherHandler
                 (network (ok viacep_found)
                    (Inr \<lparr>StatusCode = 503, Body = Inr (Payload [] (Inl (Failure ''EOF'')))\<rparr>)
                    unreachable)
                 (lookup_request ''01001000'') initial)) = 422"
    unfolding cityWeatherHandler_present [OF zip] getViaCep_found_lookup
    by (simp add: getWeather_unfold url_Parse_network RoundTrip_weather Let_def status_respond)
  then show ?thesis by simp
qed

section \<open>The temperature conversion\<close>

text \<open>
  C4. The report the resolver encodes holds the Celsius value read from the weather API,
  Fahrenheit computed as \<open>C * 9 / 5 + 32\<close> and Kelvin as \<open>C + 273.15\<close>, in float64
  arithmetic, with the locality as city; for 25 degrees Celsius, Fahrenheit is 77 and
  Kelvin is the float64 constant 298.15.
\<close>

theorem C4_temperature_conversion:
  assumes zip: "Query_Get r ''zipcode'' \<noteq> []"
    and viacep: "getViaCep E (WithSpan ''cityWeatherHandler'' (Extract Inbound r))
                   (Query_Get r ''zipcode'') r initial = (Some v, st2)"
    and weather: "getWeather E (WithSpan ''cityWeatherHandler'' (Extract Inbound r))
                   (Localidade v) r st2 = (Some wr, st3)"
    and c: "TempC (Current wr) = c"
  shows "\<exists>t. rw (cityWeatherHandler E r initial)
             = Encode t (Header_Set ''Content-Type'' ''application/json'' (rw st3))
         \<and> Celsius t = c
         \<and> Fahrenheit t = f64_add (f64_div (f64_mul c (Finite 9)) (Finite 5)) (Finite 32)
         \<and> Kelvin t = f64_add c (f64_const (27315 / 100))
         \<and> CityName t = Localidade v
         \<and> (c = Finite 25 \<longrightarrow> Fahrenheit t = Finite 77 \<and> Kelvin t = f64_const (29815 / 100))"
proof -
  let ?t = "temperatureWithCity wr (Localidade v)"
  have out: "rw (cityWeatherHandler E r initial)
      = Encode ?t (Header_Set ''Content-Type'' ''application/json'' (rw st3))"
    by (simp add: cityWeatherHandler_present [OF zip] viacep weather)
  have C: "Celsius ?t = c" and city: "CityName ?t = Localidade v"
    by (simp_all add: temperatureWithCity_def c)
  have F: "Fahrenheit ?t = f64_add (f64_div (f64_mul c (Finite 9)) (Finite 5)) (Finite 32)"
    by (simp add: temperatureWithCity_def c)
  have K: "Kelvin ?t = f64_add c (f64_const (27315 / 100))"
    by (simp add: temperatureWithCity_def c)
  have "Fahrenheit ?t = Finite 77 \<and> Kelvin ?t = f64_const (29815 / 100)" if "c = Finite 25"
    unfolding F K that fahrenheit_25 kelvin_25 by (rule conjI) (rule refl)+
  with out C city F K show ?thesis by blast
qed

theorem C4_temperature_conversion_witness:
  "\<exists>t. rw (cityWeatherHandler
               (network (ok viacep_found) (ok (weather_at (Number (Some 25) (Some 25)))) unreachable)
               (lookup_request ''01001000'') initial)
           = Encode t (Header_Set ''Content-Type'' ''application/json'' NewResponseWriter)
       \<and> Celsius t = Finite 25 \<and> Fahrenheit t = Finite 77 \<and> Kelvin t = f64_const (29815 / 100)
       \<and> CityName t = ''Sao Paulo''"
proof -
  let ?E = "network (ok viacep_found) (ok (weather_at (Number (Some 25) (Some 25)))) unreachable"
  let ?r = "lookup_request ''01001000''"
  let ?ctx = "WithSpan ''cityWeatherHandler'' (Extract Inbound ?r)"
  let ?v = "zero_ViaCep\<lparr>Cep := ''01001-000'', Localidade := ''Sao Paulo'', Uf := ''SP''\<rparr>"
  have zip: "Query_Get ?r ''zipcode'' = ''01001000''"
    by (simp add: example_simps)
  have nonempty: "Query_Get ?r ''zipcode'' \<noteq> []"
    by (simp add: zip)
  obtain st2 where viacep: "getViaCep ?E ?ctx (Query_Get ?r ''zipcode'') ?r initial = (Some ?v, st2)"
    and st2: "rw st2 = NewResponseWriter"
    by (simp add: zip getViaCep_found initial_def)
  have city: "Localidade ?v = ''Sao Paulo''"
    by simp
  obtain wr st3 where weather: "getWeather ?E ?ctx (Localidade ?v) ?r st2 = (Some wr, st3)"
    and wr: "TempC (Current wr) = Finite 25" and st3: "rw st3 = NewResponseWriter"
    by (simp add: city getWeather_at st2)
  from C4_temperature_conversion [OF nonempty viacep weather wr]
  show ?thesis
    unfolding st3 city by blast
qed

section \<open>The gateway relays the resolver's errors\<close>

text \<open>
  C5. When the resolver answers the gateway with a status other than 200 and its body
  can be read, the gateway hands the status and the body to \<^verbatim>\<open>http.Error\<close>. For a
  status that can end a response and allows a body (200 to 999, but not 204 or 304) it
  relays the status and writes the body followed by one newline, as plain text. For
  101, 204 and 304 it relays the status and writes no body. A status from 100 to 199
  other than 101 is sent as an informational response, after which the response is a
  200 with the body and a newline. A status below 100 or above 999 makes the handler
  panic before anything is written.
\<close>

theorem C5_gateway_relays_error:
  assumes dec: "Decode ''Message'' Message_fields (Payload_in g) zero_Message = Inr msg"
    and zip: "zipCodeRegex_MatchString (ZipCode msg)"
    and url: "url_Parse E (URL (resolver_request E g (ZipCode msg))) = None"
    and net: "RoundTrip E (resolver_request E g (ZipCode msg)) = Inr resp"
    and non_ok: "StatusCode resp \<noteq> 200"
    and body: "Body resp = Inr body"
  shows "(200 \<le> StatusCode resp \<and> StatusCode resp \<le> 999
            \<and> StatusCode resp \<noteq> 204 \<and> StatusCode resp \<noteq> 304 \<longrightarrow>
           \<not> panicked (zipcodeHandler E g initial)
           \<and> status (rw (state_of (zipcodeHandler E g initial))) = StatusCode resp
           \<and> informational (rw (state_of (zipcodeHandler E g initial))) = []
           \<and> written (rw (state_of (zipcodeHandler E g initial))) = [ [Str (bytes body), Str newline] ]
           \<and> plain (concat (written (rw (state_of (zipcodeHandler E g initial)))))
               = Some (bytes body @ newline))
       \<and> (StatusCode resp = 101 \<or> StatusCode resp = 204 \<or> StatusCode resp = 304 \<longrightarrow>
           \<not> panicked (zipcodeHandler E g initial)
           \<and> status (rw (state_of (zipcodeHandler E g initial))) = StatusCode resp
           \<and> informational (rw (state_of (zipcodeHandler E g initial))) = []
           \<and> written (rw (state_of (zipcodeHandler E g initial))) = [])
       \<and> (100 \<le> StatusCode resp \<and> StatusCode resp \<le> 199 \<and> StatusCode resp \<noteq> 101 \<longrightarrow>
           \<not> panicked (zipcodeHandler E g initial)
           \<and> status (rw (state_of (zipcodeHandler E g initial))) = 200
           \<and> informational (rw (state_of (zipcodeHandler E g initial))) = [StatusCode resp]
           \<and> written (rw (state_of (zipcodeHandler E g initial))) = [ [Str (bytes body), Str newline] ])
       \<and> (StatusCode resp < 100 \<or> 999 < StatusCode resp \<longrightarrow>
           panicked (zipcodeHandler E g initial)
           \<and> \<not> wroteHeader (rw (state_of (zipcodeHandler E g initial)))
           \<and> written (rw (state_of (zipcodeHandler E g initial))) = [])
       \<and> (\<not> panicked (zipcodeHandler E g initial) \<longrightarrow>
           header (rw (state_of (zipcodeHandler E g initial))) ''Content-Type''
             = Some ''text/plain; charset=utf-8'')
       \<and> sent (state_of (zipcodeHandler E g initial)) = [resolver_request E g (ZipCode msg)]"
proof -
  let ?st1 = "initial\<lparr>sent := [resolver_request E g (ZipCode msg)]\<rparr>"
  have run: "zipcodeHandler E g initial
      = (if checkWriteHeaderCode (StatusCode resp)
         then Completed (respond ?st1 [Str (bytes body)] (StatusCode resp))
         else Panicked ''invalid WriteHeader code'' ?st1)"
    by (simp add: zipcodeHandler_unfold dec zip url net non_ok body Let_def)
  have fresh: "rw ?st1 = NewResponseWriter"
    by (simp add: initial_def)
  have relay: "rw (respond ?st1 [Str (bytes body)] (StatusCode resp))
      = http_Error NewResponseWriter [Str (bytes body)] (StatusCode resp)"
    by (simp add: respond_def fresh)
  show ?thesis
    unfolding run
    by (auto simp add: relay checkWriteHeaderCode_def http_Error_def Write_def WriteHeader_def
        Header_Set_def NewResponseWriter_def bodyAllowedForStatus_def Let_def respond_def
        initial_def)
qed

theorem C5_gateway_relays_error_witness:
  "status (rw (state_of (zipcodeHandler
       (network unreachable unreachable
          (Inr \<lparr>StatusCode = 422, Body = Inr (Payload (''Invalid zipcode'' @ newline) (Inl (Failure ''invalid character'')))\<rparr>))
       (post_request (cep_body ''01001000'')) initial))) = 422
   \<and> plain (concat (written (rw (state_of (zipcodeHandler
       (network unreachable unreachable
          (Inr \<lparr>StatusCode = 422, Body = Inr (Payload (''Invalid zipcode'' @ newline) (Inl (Failure ''invalid character'')))\<rparr>))
       (post_request (cep_body ''01001000'')) initial))))) = Some (''Invalid zipcode'' @ newline @ newline)
   \<and> status (rw (state_of (zipcodeHandler
       (network unreachable unreachable
          (Inr \<lparr>StatusCode = 204, Body = Inr (Payload ''gone'' (Inl (Failure ''invalid character'')))\<rparr>))
       (post_request (cep_body ''01001000'')) initial))) = 204
   \<and> written (rw (state_of (zipcodeHandler
       (network unreachable unreachable
          (Inr \<lparr>StatusCode = 204, Body = Inr (Payload ''gone'' (Inl (Failure ''invalid character'')))\<rparr>))
       (post_request (cep_body ''01001000'')) initial))) = []
   \<and> status (rw (state_of (zipcodeHandler
       (network unreachable unreachable
          (Inr \<lparr>StatusCode = 103, Body = Inr (Payload ''hints'' (Inl (Failure ''invalid character'')))\<rparr>))
       (post_request (cep_body ''01001000'')) initial))) = 200
   \<and> panicked (zipcodeHandler
       (network unreachable unreachable
          (Inr \<lparr>StatusCode = 99, Body = Inr (Payload ''odd'' (Inl (Failure ''invalid character'')))\<rparr>))
       (post_request (cep_body ''01001000'')) initial)"
proof -
  let ?r422 = "\<lparr>StatusCode = 422, Body = Inr (Payload (''Invalid zipcode'' @ newline) (Inl (Failure ''invalid character'')))\<rparr>"
  let ?r204 = "\<lparr>StatusCode = 204, Body = Inr (Payload ''gone'' (Inl (Failure ''invalid character'')))\<rparr>"
  let ?r103 = "\<lparr>StatusCode = 103, Body = Inr (Payload ''hints'' (Inl (Failure ''invalid character'')))\<rparr>"
  let ?r99 = "\<lparr>StatusCode = 99, Body = Inr (Payload ''odd'' (Inl (Failure ''invalid character'')))\<rparr>"
  have zip: "zipCodeRegex_MatchString (ZipCode \<lparr>ZipCode = ''01001000''\<rparr>)"
    by (simp add: match_01001000)
  have net: "RoundTrip (network unreachable unreachable (Inr resp))
      (resolver_request (network unreachable unreachable (Inr resp)) (post_request (cep_body ''01001000''))
        (ZipCode \<lparr>ZipCode = ''01001000''\<rparr>)) = Inr resp" for resp
    by (simp add: RoundTrip_resolver)
  from C5_gateway_relays_error [OF Decode_cep_body zip url_Parse_network net [of ?r422],
      where body = "Payload (''Invalid zipcode'' @ newline) (Inl (Failure ''invalid character''))"]
    C5_gateway_relays_error [OF Decode_cep_body zip url_Parse_network net [of ?r204],
      where body = "Payload ''gone'' (Inl (Failure ''invalid character''))"]
    C5_gateway_relays_error [OF Decode_cep_body zip url_Parse_network net [of ?r103],
      where body = "Payload ''hints'' (Inl (Failure ''invalid character''))"]
    C5_gateway_relays_error [OF Decode_cep_body zip url_Parse_network net [of ?r99],
      where body = "Payload ''odd'' (Inl (Failure ''invalid character''))"]
  show ?thesis
    by simp
qed

text \<open>The specification has the body relayed byte for byte; the gateway writes one
  more newline than it received.\<close>

theorem C5_counterexample:
  "plain (concat (written (rw (state_of (zipcodeHandler
       (network unreachable unreachable
          (Inr \<lparr>StatusCode = 422, Body = Inr (Payload (''Invalid zipcode'' @ newline) (Inl (Failure ''invalid character'')))\<rparr>))
       (post_request (cep_body ''01001000'')) initial)))))
     \<noteq> Some (''Invalid zipcode'' @ newline)"
proof -
  let ?resp = "\<lparr>StatusCode = 422, Body = Inr (Payload (''Invalid zipcode'' @ newline) (Inl (Failure ''invalid character'')))\<rparr>"
  have "zipcodeHandler (network unreachable unreachable (Inr ?resp)) (post_request (cep_body ''01001000'')) initial
      = Completed (respond (initial\<lparr>sent := [resolver_request (network unreachable unreachable (Inr ?resp))
            (post_request (cep_body ''01001000'')) ''01001000'']\<rparr>)
          [Str (''Invalid zipcode'' @ newline)] 422)"
    by (simp add: zipcodeHandler_unfold Decode_cep_body match_01001000 url_Parse_network
        RoundTrip_resolver checkWriteHeaderCode_def Let_def)
  then show ?thesis
    by (simp add: newline_def)
qed

section \<open>The body of a gateway request\<close>

text \<open>
  C6. A gateway request whose body cannot be read or is not JSON is answered 400. A
  body that is a JSON object without the postal-code field decodes to the empty
  postal code, which is not eight digits: it is answered 422. Neither reaches the
  resolver.
\<close>

theorem C6_gateway_body:
  "((Payload_in g = Inl err \<or> (\<exists>p. Payload_in g = Inr p \<and> scanned p = Inl err)) \<longrightarrow>
      \<not> panicked (zipcodeHandler E g initial)
      \<and> status (rw (state_of (zipcodeHandler E g initial))) = 400
      \<and> sent (state_of (zipcodeHandler E g initial)) = [])
   \<and> ((\<exists>p kvs. Payload_in g = Inr p \<and> scanned p = Inr (JObject kvs) \<and> lacks kvs ''cep'') \<longrightarrow>
      \<not> panicked (zipcodeHandler E g initial)
      \<and> status (rw (state_of (zipcodeHandler E g initial))) = 422
      \<and> sent (state_of (zipcodeHandler E g initial)) = [])"
proof (intro conjI impI)
  assume "Payload_in g = Inl err \<or> (\<exists>p. Payload_in g = Inr p \<and> scanned p = Inl err)"
  then have "Decode ''Message'' Message_fields (Payload_in g) zero_Message = Inl err"
    by (auto simp add: Decode_def Unmarshal_def)
  then have "zipcodeHandler E g initial = Completed (respond initial [ErrorText err] 400)"
    by (simp add: zipcodeHandler_unfold)
  then show "\<not> panicked (zipcodeHandler E g initial)"
    and "status (rw (state_of (zipcodeHandler E g initial))) = 400"
    and "sent (state_of (zipcodeHandler E g initial)) = []"
    by (simp_all add: status_respond)
next
  assume "\<exists>p kvs. Payload_in g = Inr p \<and> scanned p = Inr (JObject kvs) \<and> lacks kvs ''cep''"
  then have "Decode ''Message'' Message_fields (Payload_in g) zero_Message = Inr zero_Message"
    by (auto simp add: Decode_def Unmarshal_def unmarshal_def object_Message_lacks)
  then have "zipcodeHandler E g initial = Completed (respond initial [Str ''Invalid zipcode''] 422)"
    by (simp add: zipcodeHandler_unfold zero_Message_def zipCodeRegex_MatchString_def)
  then show "\<not> panicked (zipcodeHandler E g initial)"
    and "status (rw (state_of (zipcodeHandler E g initial))) = 422"
    and "sent (state_of (zipcodeHandler E g initial)) = []"
    by (simp_all add: status_respond)
qed

theorem C6_gateway_body_witness:
  \<open>status (rw (state_of (zipcodeHandler (network unreachable unreachable unreachable)
       (post_request (Payload ''{"cep": '' (Inl (Failure ''unexpected EOF'')))) initial))) = 400
   \<and> status (rw (state_of (zipcodeHandler (network unreachable unreachable unreachable)
       (post_request (Payload ''{"zip": "01001000"}'' (Inr (JObject [(''zip'', JString ''01001000'')]))))
       initial))) = 422\<close>
proof -
  have a: \<open>Payload_in (post_request (Payload ''{"cep": '' (Inl (Failure ''unexpected EOF'')))) = Inl (Failure ''unexpected EOF'')
      \<or> (\<exists>p. Payload_in (post_request (Payload ''{"cep": '' (Inl (Failure ''unexpected EOF'')))) = Inr p
            \<and> scanned p = Inl (Failure ''unexpected EOF''))\<close>
    by (simp add: post_request_def)
  have b: \<open>\<exists>p kvs. Payload_in (post_request (Payload ''{"zip": "01001000"}'' (Inr (JObject [(''zip'', JString ''01001000'')])))) = Inr p
      \<and> scanned p = Inr (JObject kvs) \<and> lacks kvs ''cep''\<close>
    by (simp add: post_request_def lacks_def upper_def)
  from a b C6_gateway_body [where E = "network unreachable unreachable unreachable"
      and err = "Failure ''unexpected EOF''"
      and g = \<open>post_request (Payload ''{"cep": '' (Inl (Failure ''unexpected EOF'')))\<close>]
    C6_gateway_body [where E = "network unreachable unreachable unreachable"
      and g = \<open>post_request (Payload ''{"zip": "01001000"}'' (Inr (JObject [(''zip'', JString ''01001000'')])))\<close>]
  show ?thesis
    by blast
qed

text \<open>The specification asks for 400 when the field is missing; the empty object is
  answered 422.\<close>

theorem C6_counterexample:
  "lacks [] ''cep''
   \<and> status (rw (state_of (zipcodeHandler (network unreachable unreachable unreachable)
        (post_request (Payload ''{}'' (Inr (JObject [])))) initial))) \<noteq> 400"
proof -
  have "Decode ''Message'' Message_fields (Payload_in (post_request (Payload ''{}'' (Inr (JObject [])))))
      zero_Message = Inr zero_Message"
    by (simp add: decode_simps post_request_def)
  then have "zipcodeHandler (network unreachable unreachable unreachable)
      (post_request (Payload ''{}'' (Inr (JObject [])))) initial
        = Completed (respond initial [Str ''Invalid zipcode''] 422)"
    by (simp add: zipcodeHandler_unfold zero_Message_def zipCodeRegex_MatchString_def)
  then show ?thesis
    by (simp add: status_respond lacks_def)
qed

section \<open>The report crosses the gateway unchanged\<close>

text \<open>
  C7. When the resolver has written its success payload and the gateway receives it
  with status 200, the gateway decodes exactly the struct the resolver encoded (the
  same city, temp_C, temp_F and temp_K) and writes the same JSON value with status 200.
\<close>

theorem C7_round_trip:
  assumes resolver: "written (rw (cityWeatherHandler E' r initial)) = [ [Encoded j, Str newline] ]"
    and dec: "Decode ''Message'' Message_fields (Payload_in g) zero_Message = Inr msg"
    and zip: "zipCodeRegex_MatchString (ZipCode msg)"
    and url: "url_Parse E (URL (resolver_request E g (ZipCode msg))) = None"
    and net: "RoundTrip E (resolver_request E g (ZipCode msg)) = Inr resp"
    and ok: "StatusCode resp = 200"
    and body: "Body resp = Inr p"
    and scan: "scanned p = Inr j"
  shows "\<exists>v wr. lookups E' r = Some (v, wr)
         \<and> marshal_TemperatureWithCity (temperatureWithCity wr (Localidade v)) = Inr j
         \<and> Decode ''TemperatureWithCity'' TemperatureWithCity_fields (Body resp)
              zero_TemperatureWithCity = Inr (temperatureWithCity wr (Localidade v))
         \<and> \<not> panicked (zipcodeHandler E g initial)
         \<and> status (rw (state_of (zipcodeHandler E g initial))) = 200
         \<and> written (rw (state_of (zipcodeHandler E g initial))) = [ [Encoded j, Str newline] ]"
proof -
  from cityWeatherHandler_payload [OF resolver] obtain v wr where
    l: "lookups E' r = Some (v, wr)"
    and m: "marshal_TemperatureWithCity (temperatureWithCity wr (Localidade v)) = Inr j"
    by blast
  have d: "Decode ''TemperatureWithCity'' TemperatureWithCity_fields (Body resp)
      zero_TemperatureWithCity = Inr (temperatureWithCity wr (Localidade v))"
    by (simp add: Decode_def Unmarshal_def body scan unmarshal_marshal [OF m])
  have "zipcodeHandler E g initial
      = Completed (initial\<lparr>sent := [resolver_request E g (ZipCode msg)],
          rw := Encode (temperatureWithCity wr (Localidade v))
            (WriteHeader 200 (Header_Set ''Content-Type'' ''application/json'' NewResponseWriter))\<rparr>)"
    by (simp add: zipcodeHandler_unfold dec zip url net ok d Let_def)
  then have "\<not> panicked (zipcodeHandler E g initial)
      \<and> status (rw (state_of (zipcodeHandler E g initial))) = 200
      \<and> written (rw (state_of (zipcodeHandler E g initial))) = [ [Encoded j, Str newline] ]"
    by (simp add: status_Encode written_Encode m WriteHeader_def Header_Set_def)
  with l m d show ?thesis by blast
qed

lemma resolver_25:
  "written (rw (cityWeatherHandler
      (network (ok viacep_found) (ok (weather_at (Number (Some 25) (Some 25)))) unreachable)
      (lookup_request ''01001000'') initial)) = [ [Encoded report_25, Str newline] ]"
proof -
  have zip: "Query_Get (lookup_request ''01001000'') ''zipcode'' \<noteq> []"
    by (simp add: example_simps)
  have city: "Localidade (zero_ViaCep\<lparr>Cep := ''01001-000'', Localidade := ''Sao Paulo'', Uf := ''SP''\<rparr>)
      = ''Sao Paulo''"
    by simp
  have "rw (cityWeatherHandler
      (network (ok viacep_found) (ok (weather_at (Number (Some 25) (Some 25)))) unreachable)
      (lookup_request ''01001000'') initial)
      = Encode (temperatureWithCity
          (zero_Weather\<lparr>Location := (Location zero_Weather)\<lparr>Name := ''Sao Paulo''\<rparr>,
             Current := \<lparr>TempC = Finite 25, Condition = ()\<rparr>\<rparr>) ''Sao Paulo'')
          (Header_Set ''Content-Type'' ''application/json'' NewResponseWriter)"
    unfolding cityWeatherHandler_present [OF zip] getViaCep_found_lookup
    by (simp add: getWeather_at)
  then show ?thesis
    by (simp add: written_Encode marshal_25 Header_Set_def)
qed

theorem C7_round_trip_witness:
  \<open>status (rw (state_of (zipcodeHandler
       (network unreachable unreachable
          (ok (Payload ''{"temp_C":25,"temp_F":77,"temp_K":298.15,"city":"Sao Paulo"}'' (Inr report_25))))
       (post_request (cep_body ''01001000'')) initial))) = 200
   \<and> written (rw (state_of (zipcodeHandler
       (network unreachable unreachable
          (ok (Payload ''{"temp_C":25,"temp_F":77,"temp_K":298.15,"city":"Sao Paulo"}'' (Inr report_25))))
       (post_request (cep_body ''01001000'')) initial))) = [ [Encoded report_25, Str newline] ]\<close>
proof -
  let ?p = \<open>Payload ''{"temp_C":25,"temp_F":77,"temp_K":298.15,"city":"Sao Paulo"}'' (Inr report_25)\<close>
  let ?E = "network unreachable unreachable (ok ?p)"
  have zip: "zipCodeRegex_MatchString (ZipCode \<lparr>ZipCode = ''01001000''\<rparr>)"
    by (simp add: match_01001000)
  have net: "RoundTrip ?E (resolver_request ?E (post_request (cep_body ''01001000''))
        (ZipCode \<lparr>ZipCode = ''01001000''\<rparr>)) = Inr \<lparr>StatusCode = 200, Body = Inr ?p\<rparr>"
    by (simp add: RoundTrip_resolver ok_def)
  from C7_round_trip [OF resolver_25 Decode_cep_body zip url_Parse_network net, of ?p]
  show ?thesis
    by auto
qed

section \<open>The contexts of the outbound calls\<close>

text \<open>
  C8. Every outbound call of either service is made with a context derived from the
  context of the request being served by adding values only (the extracted trace and
  the spans): at every moment it is done exactly when the context of the request being
  served is done, so the call is cancelled with the inbound request and by nothing
  else. It carries no deadline: no timeout is attached to it.
\<close>

theorem C8_outbound_contexts:
  "(\<forall>req \<in> set (sent (cityWeatherHandler E r initial)).
      root (Ctx req) = Inbound \<and> timeout (Ctx req) = None
      \<and> (\<forall>cancelled elapsed. Done cancelled elapsed (Ctx req) = cancelled))
   \<and> (\<forall>req \<in> set (sent (state_of (zipcodeHandler E g initial))).
      root (Ctx req) = Inbound \<and> timeout (Ctx req) = None
      \<and> (\<forall>cancelled elapsed. Done cancelled elapsed (Ctx req) = cancelled))"
proof
  show "\<forall>req \<in> set (sent (cityWeatherHandler E r initial)).
      root (Ctx req) = Inbound \<and> timeout (Ctx req) = None
      \<and> (\<forall>cancelled elapsed. Done cancelled elapsed (Ctx req) = cancelled)"
    using cityWeatherHandler_sent [of E r]
    by (auto simp add: viacep_request_def weather_request_def)
  show "\<forall>req \<in> set (sent (state_of (zipcodeHandler E g initial))).
      root (Ctx req) = Inbound \<and> timeout (Ctx req) = None
      \<and> (\<forall>cancelled elapsed. Done cancelled elapsed (Ctx req) = cancelled)"
    using zipcodeHandler_sent [of E g]
    by (auto simp add: resolver_request_def)
qed

theorem C8_outbound_contexts_witness:
  \<open>list_all (\<lambda>req. root (Ctx req) = Inbound \<and> timeout (Ctx req) = None
               \<and> Done True 0 (Ctx req) \<and> \<not> Done False 5 (Ctx req))
     [viacep_request (lookup_request ''01001000''),
      weather_request (lookup_request ''01001000'') ''Sao Paulo'',
      resolver_request (network unreachable unreachable
          (ok (Payload ''{"temp_C":25,"temp_F":77,"temp_K":298.15,"city":"Sao Paulo"}'' (Inr report_25))))
          (post_request (cep_body ''01001000'')) ''01001000'']\<close>
  using C8_outbound_contexts [where
      E = \<open>network (ok viacep_found) (ok (weather_at (Number (Some 25) (Some 25)))) unreachable\<close>
      and r = \<open>lookup_request ''01001000''\<close>
      and g = \<open>post_request (cep_body ''01001000'')\<close>]
    C8_outbound_contexts [where
      E = \<open>network unreachable unreachable
          (ok (Payload ''{"temp_C":25,"temp_F":77,"temp_K":298.15,"city":"Sao Paulo"}'' (Inr report_25)))\<close>
      and r = \<open>lookup_request ''01001000''\<close>
      and g = \<open>post_request (cep_body ''01001000'')\<close>]
  unfolding sent_resolver_25 sent_gateway_25 by simp

text \<open>The specification has every outbound call carry a timeout of five seconds. The
  calls of a successful lookup carry no deadline, and six seconds on, with the inbound
  request still being served, none of their contexts is done.\<close>

theorem C8_counterexample:
  \<open>map (\<lambda>req. (timeout (Ctx req), Done False 6 (Ctx req))) (sent (cityWeatherHandler
      (network (ok viacep_found) (ok (weather_at (Number (Some 25) (Some 25)))) unreachable)
      (lookup_request ''01001000'') initial)) = [(None, False), (None, False)]
   \<and> map (\<lambda>req. (timeout (Ctx req), Done False 6 (Ctx req))) (sent (state_of (zipcodeHandler
       (network unreachable unreachable
          (ok (Payload ''{"temp_C":25,"temp_F":77,"temp_K":298.15,"city":"Sao Paulo"}'' (Inr report_25))))
       (post_request (cep_body ''01001000'')) initial))) = [(None, False)]\<close>
  unfolding sent_resolver_25 sent_gateway_25
  by (simp add: viacep_request_def weather_request_def resolver_request_def Extract_def
      lookup_request_def post_request_def)

section \<open>One response for every resolver request\<close>

text \<open>
  C9. The specification has the resolver write exactly one response for every request:
  an error response from the lookup that failed, or the success body whenever both
  lookups return a result. Every failure the handler and its lookups test for is
  answered with \<^verbatim>\<open>http.Error\<close>; the error of \<open>Encode\<close> is the one that is dropped. When
  the weather API reports \<open>2 ^ 1023\<close> degrees Celsius, a number float64 holds, both
  lookups return a result, the Fahrenheit value overflows to infinity, \<open>Encode\<close> fails
  with \<open>UnsupportedValueError\<close>, and the handler returns having written nothing:
  no header, no report and no error response.
\<close>

theorem C9_encode_error_dropped:
  "lookups (network (ok viacep_found) (ok (weather_at (Number (Some huge) None))) unreachable)
      (lookup_request ''01001000'') \<noteq> None
   \<and> Fahrenheit (temperatureWithCity
        (zero_Weather\<lparr>Location := (Location zero_Weather)\<lparr>Name := ''Sao Paulo''\<rparr>,
           Current := \<lparr>TempC = Finite huge, Condition = ()\<rparr>\<rparr>) ''Sao Paulo'') = PosInf
   \<and> marshal_TemperatureWithCity (temperatureWithCity
        (zero_Weather\<lparr>Location := (Location zero_Weather)\<lparr>Name := ''Sao Paulo''\<rparr>,
           Current := \<lparr>TempC = Finite huge, Condition = ()\<rparr>\<rparr>) ''Sao Paulo'') = Inl UnsupportedValueError
   \<and> \<not> wroteHeader (rw (cityWeatherHandler
        (network (ok viacep_found) (ok (weather_at (Number (Some huge) None))) unreachable)
        (lookup_request ''01001000'') initial))
   \<and> written (rw (cityWeatherHandler
        (network (ok viacep_found) (ok (weather_at (Number (Some huge) None))) unreachable)
        (lookup_request ''01001000'') initial)) = []"
proof -
  let ?E = "network (ok viacep_found) (ok (weather_at (Number (Some huge) None))) unreachable"
  let ?wr = "zero_Weather\<lparr>Location := (Location zero_Weather)\<lparr>Name := ''Sao Paulo''\<rparr>,
           Current := \<lparr>TempC = Finite huge, Condition = ()\<rparr>\<rparr>"
  have t: "temperatureWithCity ?wr ''Sao Paulo'' = \<lparr>Celsius = Finite huge, Fahrenheit = PosInf,
      Kelvin = f64_add (Finite huge) (f64_const (27315 / 100)), CityName = ''Sao Paulo''\<rparr>"
    unfolding temperatureWithCity_at [OF TempC_weather_at] fahrenheit_overflow ..
  have F: "Fahrenheit (temperatureWithCity ?wr ''Sao Paulo'') = PosInf"
    unfolding t by simp
  have m: "marshal_TemperatureWithCity (temperatureWithCity ?wr ''Sao Paulo'') = Inl UnsupportedValueError"
    unfolding t by (simp add: marshal_TemperatureWithCity_def)
  have zip: "Query_Get (lookup_request ''01001000'') ''zipcode'' \<noteq> []"
    by (simp add: example_simps)
  have city: "Localidade (zero_ViaCep\<lparr>Cep := ''01001-000'', Localidade := ''Sao Paulo'', Uf := ''SP''\<rparr>)
      = ''Sao Paulo''"
    by simp
  have "rw (cityWeatherHandler ?E (lookup_request ''01001000'') initial)
      = Encode (temperatureWithCity ?wr ''Sao Paulo'')
          (Header_Set ''Content-Type'' ''application/json'' NewResponseWriter)"
    unfolding cityWeatherHandler_present [OF zip] getViaCep_found_lookup
    by (simp add: getWeather_at)
  then have "written (rw (cityWeatherHandler ?E (lookup_request ''01001000'') initial)) = []"
    and "\<not> wroteHeader (rw (cityWeatherHandler ?E (lookup_request ''01001000'') initial))"
    by (simp_all add: Encode_def m Header_Set_def)
  with F m show ?thesis
    unfolding lookups_found_25 by simp
qed

section \<open>A report with missing or additional members\<close>



end
